theory Spec2Isabelle
  imports Main "HOL-Library.Word"
begin

section \<open>The nslog handler: data model\<close>

text \<open>
  The package \<^verbatim>\<open>nslog\<close> (file \<^verbatim>\<open>log_handler.go\<close>) implements one
  \<^verbatim>\<open>slog.Handler\<close>. Strings are Go strings, that is byte sequences: \<open>string\<close>.
  A \<^verbatim>\<open>slog.Level\<close> is a Go \<^verbatim>\<open>int\<close>.
\<close>

type_synonym Level = int

definition LevelDebug :: Level where "LevelDebug = - 4"
definition LevelInfo :: Level where "LevelInfo = 0"
definition LevelWarn :: Level where "LevelWarn = 4"
definition LevelError :: Level where "LevelError = 8"

definition DEFAULT_LEVEL :: Level where "DEFAULT_LEVEL = LevelInfo"
definition DEFAULT_TIME_LAYOUT :: string where "DEFAULT_TIME_LAYOUT = ''2006/01/02 15:04:05''"
definition DEFAULT_SOURCE_LEVEL :: Level where "DEFAULT_SOURCE_LEVEL = LevelWarn"

text \<open>
  \<^verbatim>\<open>LogHandlerOptions\<close>. The two \<^verbatim>\<open>slog.Leveler\<close> fields are interface values
  and may be nil: \<open>None\<close>. A non-nil leveler is taken to be a \<^verbatim>\<open>slog.Level\<close>, whose
  method \<^verbatim>\<open>Level()\<close> returns the level itself.
\<close>

record LogHandlerOptions =
  Level :: "Level option"
  AddColor :: bool
  TimeLayout :: string
  AddPID :: bool
  AddGoroutineID :: bool
  AddSourceLevel :: "Level option"
  SourceFilePath :: bool

text \<open>The zero value \<^verbatim>\<open>LogHandlerOptions{}\<close>.\<close>

definition zero_options :: LogHandlerOptions where
  "zero_options = \<lparr>Level = None, AddColor = False, TimeLayout = [], AddPID = False,
     AddGoroutineID = False, AddSourceLevel = None, SourceFilePath = False\<rparr>"

text \<open>
  A \<^verbatim>\<open>slog.Value\<close> of the kinds String, Int64, Uint64 and Bool holds its datum; a value
  of kind Any holds a reference to an object of the program (\<open>AnyValue r\<close>), and its
  string form is whatever \<^verbatim>\<open>fmt\<close> prints for that object when asked. The zero
  \<^verbatim>\<open>slog.Value\<close> is the Any value that holds nil (\<open>NilValue\<close>).
\<close>

datatype Value = StringValue string | Int64Value "64 word" | Uint64Value "64 word"
  | BoolValue bool | AnyValue nat | NilValue

record Attr =
  Key :: string
  Value :: Value

text \<open>
  A \<^verbatim>\<open>slog.Record\<close>: the time (an opaque instant), the level, the message, the program
  counter of the call site (0 when unknown) and the attributes that \<^verbatim>\<open>Record.Attrs\<close>
  enumerates, in order.
\<close>

record Record =
  Time :: nat
  RLevel :: Level
  Message :: string
  PC :: nat
  RAttrs :: "Attr list"

text \<open>
  What the code calls outside this repository and whose result the repository does not
  fix: the process environment, the process id, the text \<^verbatim>\<open>runtime.Stack\<close> produces,
  \<^verbatim>\<open>Time.Format\<close>, the four functions of the colour library, the frame (file, line) of a
  program counter, \<^verbatim>\<open>filepath.Base\<close>, the string \<^verbatim>\<open>fmt\<close> prints for a referenced
  object, the capacity the runtime chooses when \<^verbatim>\<open>append\<close> grows a slice (old capacity,
  needed length), and the error a writer returns for a \<^verbatim>\<open>Write\<close> (None is nil).
\<close>

record extern =
  Getenv :: "string \<Rightarrow> string"
  Getpid :: int
  Stack :: string
  Format :: "nat \<Rightarrow> string \<Rightarrow> string"
  HiRedString :: "string \<Rightarrow> string"
  HiYellowString :: "string \<Rightarrow> string"
  HiGreenString :: "string \<Rightarrow> string"
  HiCyanString :: "string \<Rightarrow> string"
  CallersFrames :: "nat \<Rightarrow> string \<times> int"
  Base :: "string \<Rightarrow> string"
  Sprint :: "nat \<Rightarrow> string"
  growslice :: "nat \<Rightarrow> nat \<Rightarrow> nat"
  Write :: "nat \<Rightarrow> string \<Rightarrow> string option"

subsection \<open>Slices and their backing arrays\<close>

text \<open>
  A Go slice is a header (array, length, capacity); several headers may share one array.
  The arrays live in a memory, a list indexed by address. A nil slice has no array. No
  expression of the source re-slices from a non-zero lower bound, so a header points at
  the start of its array.
\<close>

record slice =
  array :: "nat option"
  len :: nat
  cap :: nat

definition nil_slice :: slice where
  "nil_slice = \<lparr>array = None, len = 0, cap = 0\<rparr>"

definition elems :: "'a list list \<Rightarrow> slice \<Rightarrow> 'a list" where
  "elems mem s = (case array s of None \<Rightarrow> [] | Some a \<Rightarrow> take (len s) (mem ! a))"

definition valid_slice :: "'a list list \<Rightarrow> slice \<Rightarrow> bool" where
  "valid_slice mem s =
     (case array s of None \<Rightarrow> len s = 0 \<and> cap s = 0
      | Some a \<Rightarrow> a < length mem \<and> len s \<le> cap s \<and> cap s \<le> length (mem ! a))"

text \<open>\<^verbatim>\<open>slices.Clip(s)\<close> is \<^verbatim>\<open>s[:len(s):len(s)]\<close>.\<close>

definition Clip :: "slice \<Rightarrow> slice" where
  "Clip s = s\<lparr>cap := len s\<rparr>"

text \<open>
  \<^verbatim>\<open>append(s, xs...)\<close>: when the capacity suffices the elements are written into the
  array of \<open>s\<close>, behind its length, and the array stays shared; otherwise a new array is
  allocated, of a capacity of the runtime's choice that holds the result, the unused
  cells holding the zero value.
\<close>

definition append_slice ::
  "extern \<Rightarrow> 'a \<Rightarrow> 'a list list \<Rightarrow> slice \<Rightarrow> 'a list \<Rightarrow> slice \<times> 'a list list" where
  "append_slice ext zero mem s xs =
     (let n = len s + length xs in
      if n \<le> cap s then
        (case array s of
           None \<Rightarrow> (s, mem)
         | Some a \<Rightarrow>
             (s\<lparr>len := n\<rparr>, mem[a := take (len s) (mem ! a) @ xs @ drop n (mem ! a)]))
      else
        (let c = max n (growslice ext (cap s) n) in
         (\<lparr>array = Some (length mem), len = n, cap = c\<rparr>,
          mem @ [elems mem s @ xs @ replicate (c - n) zero])))"

subsection \<open>The handler and the world it runs in\<close>

text \<open>
  \<^verbatim>\<open>LogHandler\<close>. The mutex is a pointer and the writer an interface value holding a
  reference: both are identities. The writer may be the nil interface (None). The mutex
  is never nil where it is locked: \<^verbatim>\<open>NewLogHandler\<close> allocates it, \<^verbatim>\<open>clone\<close> copies
  it, and the zero \<^verbatim>\<open>LogHandler\<close> panics on its nil \<^verbatim>\<open>AddSourceLevel\<close> before the lock.
\<close>

record LogHandler =
  options :: LogHandlerOptions
  attrs :: slice
  groups :: slice
  mutex :: nat
  writer :: "nat option"

text \<open>
  The state outside the handler structs: the arrays behind the \<^verbatim>\<open>[]slog.Attr\<close> and
  \<^verbatim>\<open>[]string\<close> slices, the number of mutexes allocated so far, and the calls of
  \<^verbatim>\<open>Write\<close> made so far (writer, bytes), oldest first.
\<close>

record world =
  attrmem :: "Attr list list"
  groupmem :: "string list list"
  mutexes :: nat
  written :: "(nat \<times> string) list"

datatype panic = NilDereference | SliceBounds

section \<open>Library functions the handler calls\<close>

text \<open>\<^verbatim>\<open>strings.Join\<close>.\<close>

fun Join :: "string list \<Rightarrow> string \<Rightarrow> string" where
  "Join [] sep = []"
| "Join [x] sep = x"
| "Join (x # y # ys) sep = x @ sep @ Join (y # ys) sep"

text \<open>
  \<^verbatim>\<open>strings.EqualFold(s, t)\<close> for a second argument of ASCII characters, which is the
  only use the source makes of it. Equality is under simple Unicode case folding: an ASCII
  letter of \<open>t\<close> is matched by its two cases, and the letters s and k also by the runes
  U+017F (bytes C5 BF) and U+212A (bytes E2 84 AA), whose folding orbits they share.
  \<open>stripRune c s\<close> removes from the front of \<open>s\<close> a rune that folds to \<open>c\<close>;
  \<open>ToLower\<close> and \<open>ToUpper\<close> map the ASCII letters and leave every other byte.
\<close>

definition ToLower :: "char \<Rightarrow> char" where
  "ToLower c =
     (case map_of (zip ''ABCDEFGHIJKLMNOPQRSTUVWXYZ'' ''abcdefghijklmnopqrstuvwxyz'') c of
        None \<Rightarrow> c | Some l \<Rightarrow> l)"

definition ToUpper :: "char \<Rightarrow> char" where
  "ToUpper c =
     (case map_of (zip ''abcdefghijklmnopqrstuvwxyz'' ''ABCDEFGHIJKLMNOPQRSTUVWXYZ'') c of
        None \<Rightarrow> c | Some u \<Rightarrow> u)"

definition stripRune :: "char \<Rightarrow> string \<Rightarrow> string option" where
  "stripRune c s =
     (case s of
        [] \<Rightarrow> None
      | x # xs \<Rightarrow>
          if x = ToLower c \<or> x = ToUpper c then Some xs
          else if ToLower c = CHR ''s'' \<and> take 2 s = [CHR 0xC5, CHR 0xBF] then Some (drop 2 s)
          else if ToLower c = CHR ''k'' \<and> take 3 s = [CHR 0xE2, CHR 0x84, CHR 0xAA]
            then Some (drop 3 s)
          else None)"

fun EqualFold :: "string \<Rightarrow> string \<Rightarrow> bool" where
  "EqualFold s [] = (s = [])"
| "EqualFold s (c # t) =
     (case stripRune c s of None \<Rightarrow> False | Some rest \<Rightarrow> EqualFold rest t)"

text \<open>\<^verbatim>\<open>bytes.TrimPrefix\<close> and \<^verbatim>\<open>bytes.IndexByte\<close> (None for the result -1).\<close>

definition TrimPrefix :: "string \<Rightarrow> string \<Rightarrow> string" where
  "TrimPrefix b p = (if take (length p) b = p then drop (length p) b else b)"

fun IndexByte :: "string \<Rightarrow> char \<Rightarrow> nat option" where
  "IndexByte [] c = None"
| "IndexByte (x # xs) c =
     (if x = c then Some 0 else map_option Suc (IndexByte xs c))"

text \<open>
  \<^verbatim>\<open>strconv.ParseUint(s, 10, 64)\<close>, the value it returns (the error is discarded by
  the caller): 0 on a syntax error, the largest value on overflow.
\<close>

definition maxUint64 :: nat where "maxUint64 = 2 ^ 64 - 1"

definition is_digit :: "char \<Rightarrow> bool" where
  "is_digit c = (48 \<le> (of_char c :: nat) \<and> (of_char c :: nat) \<le> 57)"

fun parse_digits :: "nat \<Rightarrow> string \<Rightarrow> nat" where
  "parse_digits n [] = n"
| "parse_digits n (c # cs) =
     (if \<not> is_digit c then 0
      else if n \<ge> maxUint64 div 10 + 1 then maxUint64
      else (let n1 = n * 10 + ((of_char c :: nat) - 48) in
            if n1 > maxUint64 then maxUint64 else parse_digits n1 cs))"

definition ParseUint :: "string \<Rightarrow> 64 word" where
  "ParseUint s = (if s = [] then 0 else of_nat (parse_digits 0 s))"

text \<open>Decimal and upper-case hexadecimal digits of a natural number, most significant first.\<close>

fun digits10 :: "nat \<Rightarrow> string" where
  "digits10 n = (if n < 10 then [''0123456789'' ! n]
                 else digits10 (n div 10) @ [''0123456789'' ! (n mod 10)])"

declare digits10.simps [simp del]

definition hexdigit :: "nat \<Rightarrow> char" where
  "hexdigit d = ''0123456789ABCDEF'' ! d"

fun digits16 :: "nat \<Rightarrow> string" where
  "digits16 n = (if n < 16 then [hexdigit n]
                 else digits16 (n div 16) @ [hexdigit (n mod 16)])"

declare digits16.simps [simp del]

text \<open>\<^verbatim>\<open>strconv.Itoa\<close>.\<close>

definition Itoa :: "int \<Rightarrow> string" where
  "Itoa i = (if i < 0 then CHR ''-'' # digits10 (nat (- i)) else digits10 (nat i))"

text \<open>
  \<^verbatim>\<open>fmt.Sprintf("%0wX", n)\<close> for a positive \<open>n\<close>: the hexadecimal digits, padded with
  zeros on the left up to the width \<open>w\<close>.
\<close>

definition Sprintf_0X :: "nat \<Rightarrow> nat \<Rightarrow> string" where
  "Sprintf_0X w n = replicate (w - length (digits16 n)) (CHR ''0'') @ digits16 n"

text \<open>\<^verbatim>\<open>Value.String\<close>.\<close>

definition String :: "extern \<Rightarrow> Value \<Rightarrow> string" where
  "String ext v =
     (case v of
        StringValue s \<Rightarrow> s
      | Int64Value i \<Rightarrow> Itoa (sint i)
      | Uint64Value u \<Rightarrow> digits10 (unat u)
      | BoolValue b \<Rightarrow> (if b then ''true'' else ''false'')
      | AnyValue r \<Rightarrow> Sprint ext r
      | NilValue \<Rightarrow> ''<nil>'')"

section \<open>The handler\<close>

subsection \<open>Construction\<close>

text \<open>
  The two shapes of environment override in \<^verbatim>\<open>NewLogHandler\<close>: the \<^verbatim>\<open>switch\<close> on a
  level variable, and the \<^verbatim>\<open>if\<close> chain on a boolean variable. Each takes the value of the
  variable and the current value of the field and returns the field's new value.
\<close>

definition switch_level :: "string \<Rightarrow> Level option \<Rightarrow> Level option" where
  "switch_level v cur =
     (if v = ''ERROR'' then Some LevelError
      else if v = ''WARN'' then Some LevelWarn
      else if v = ''INFO'' then Some LevelInfo
      else if v = ''DEBUG'' then Some LevelDebug
      else cur)"

definition if_flag :: "string \<Rightarrow> bool \<Rightarrow> bool" where
  "if_flag v cur =
     (if EqualFold v ''false'' \<or> v = ''0'' then False
      else if EqualFold v ''true'' \<or> v = ''1'' then True
      else cur)"

text \<open>
  \<^verbatim>\<open>NewLogHandler(writer, options)\<close>. The argument is a pointer: None is nil. The result
  is the handler, the object behind the caller's pointer after the call (None when the
  caller passed nil and so has no object), and the world with the new mutex.
\<close>

definition NewLogHandler ::
  "extern \<Rightarrow> world \<Rightarrow> nat option \<Rightarrow> LogHandlerOptions option
     \<Rightarrow> LogHandler \<times> LogHandlerOptions option \<times> world" where
  "NewLogHandler ext w wr opts =
     (let o0 = (case opts of None \<Rightarrow> zero_options | Some p \<Rightarrow> p);
          o1 = (if Level o0 = None then o0\<lparr>Level := Some DEFAULT_LEVEL\<rparr> else o0);
          o2 = (if TimeLayout o1 = [] then o1\<lparr>TimeLayout := DEFAULT_TIME_LAYOUT\<rparr> else o1);
          o3 = (if AddSourceLevel o2 = None
                then o2\<lparr>AddSourceLevel := Some DEFAULT_SOURCE_LEVEL\<rparr> else o2);
          o4 = o3\<lparr>Level := switch_level (Getenv ext ''GO_NSLOG_LEVEL'') (Level o3)\<rparr>;
          o5 = o4\<lparr>AddColor := if_flag (Getenv ext ''GO_NSLOG_ADD_COLOR'') (AddColor o4)\<rparr>;
          nslogTimeLayout = Getenv ext ''GO_NSLOG_TIME_LAYOUT'';
          o6 = (if nslogTimeLayout \<noteq> [] then o5\<lparr>TimeLayout := nslogTimeLayout\<rparr> else o5);
          o7 = o6\<lparr>AddPID := if_flag (Getenv ext ''GO_NSLOG_ADD_PID'') (AddPID o6)\<rparr>;
          o8 = o7\<lparr>AddGoroutineID :=
                     if_flag (Getenv ext ''GO_NSLOG_ADD_GOROUTINEID'') (AddGoroutineID o7)\<rparr>;
          o9 = o8\<lparr>AddSourceLevel :=
                     switch_level (Getenv ext ''GO_NSLOG_ADD_SOURCE_LEVEL'') (AddSourceLevel o8)\<rparr>;
          o10 = o9\<lparr>SourceFilePath :=
                     if_flag (Getenv ext ''GO_NSLOG_SOURCE_FILE_PATH'') (SourceFilePath o9)\<rparr>
      in (\<lparr>options = o10, attrs = nil_slice, groups = nil_slice, mutex = mutexes w,
           writer = wr\<rparr>,
          (case opts of None \<Rightarrow> None | Some p \<Rightarrow> Some o10),
          w\<lparr>mutexes := Suc (mutexes w)\<rparr>))"

subsection \<open>Derivation\<close>

text \<open>
  \<^verbatim>\<open>clone\<close> allocates a new handler struct; \<^verbatim>\<open>WithAttrs\<close> and \<^verbatim>\<open>WithGroup\<close> assign
  only to a field of that new struct, so handler structs are values here. What the
  receiver and the new handler can share is the arrays behind their slices, which live
  in the world.
\<close>

definition clone :: "LogHandler \<Rightarrow> LogHandler" where
  "clone handler =
     \<lparr>options = options handler, attrs = Clip (attrs handler),
      groups = Clip (groups handler), mutex = mutex handler, writer = writer handler\<rparr>"

definition Enabled :: "LogHandler \<Rightarrow> Level \<Rightarrow> panic + bool" where
  "Enabled handler level =
     (case Level (options handler) of
        None \<Rightarrow> Inl NilDereference
      | Some l \<Rightarrow> Inr (level \<ge> l))"

definition zero_Attr :: Attr where
  "zero_Attr = \<lparr>Key = [], Value = NilValue\<rparr>"

definition WithAttrs ::
  "extern \<Rightarrow> world \<Rightarrow> LogHandler \<Rightarrow> Attr list \<Rightarrow> LogHandler \<times> world" where
  "WithAttrs ext w handler as =
     (let new_handler = clone handler;
          (s, m) = append_slice ext zero_Attr (attrmem w) (attrs new_handler) as
      in (new_handler\<lparr>attrs := s\<rparr>, w\<lparr>attrmem := m\<rparr>))"

definition WithGroup ::
  "extern \<Rightarrow> world \<Rightarrow> LogHandler \<Rightarrow> string \<Rightarrow> LogHandler \<times> world" where
  "WithGroup ext w handler name =
     (let new_handler = clone handler;
          (s, m) = append_slice ext [] (groupmem w) (groups new_handler) [name]
      in (new_handler\<lparr>groups := s\<rparr>, w\<lparr>groupmem := m\<rparr>))"

subsection \<open>Handle\<close>

text \<open>
  The local variables of \<^verbatim>\<open>Handle\<close>, one definition each, in the order of the source.
  The goroutine id is read off the first 64 bytes of the stack trace; slicing up to the
  index -1 panics.
\<close>

definition pid :: "extern \<Rightarrow> LogHandlerOptions \<Rightarrow> int" where
  "pid ext opts = (if AddPID opts then Getpid ext else 0)"

definition goroutineID :: "extern \<Rightarrow> LogHandlerOptions \<Rightarrow> panic + 64 word" where
  "goroutineID ext opts =
     (if AddGoroutineID opts then
        (let b = take 64 (Stack ext);
             b = TrimPrefix b ''goroutine '' in
         case IndexByte b (CHR '' '') of
           None \<Rightarrow> Inl SliceBounds
         | Some i \<Rightarrow> Inr (ParseUint (take i b)))
      else Inr 0)"

definition level :: "extern \<Rightarrow> LogHandlerOptions \<Rightarrow> Level \<Rightarrow> string" where
  "level ext opts l =
     (if l = LevelError then (if AddColor opts then HiRedString ext ''ERROR'' else ''ERROR'')
      else if l = LevelWarn then
        (if AddColor opts then HiYellowString ext ''WARN.'' else ''WARN.'')
      else if l = LevelInfo then
        (if AddColor opts then HiGreenString ext ''INFO.'' else ''INFO.'')
      else if l = LevelDebug then
        (if AddColor opts then HiCyanString ext ''DEBUG'' else ''DEBUG'')
      else ''UNSET'')"

definition withGroup :: "string list \<Rightarrow> string" where
  "withGroup gs = (if length gs > 0 then Join gs ''.'' else [])"

definition withAttributes :: "extern \<Rightarrow> Attr list \<Rightarrow> string list" where
  "withAttributes ext as = map (\<lambda>attribute. Key attribute @ ''='' @ String ext (Value attribute)) as"

definition with_clause :: "extern \<Rightarrow> string list \<Rightarrow> Attr list \<Rightarrow> string" where
  "with_clause ext gs as =
     (let with = withGroup gs;
          with = (if length (withAttributes ext as) > 0
                  then with @ ''['' @ Join (withAttributes ext as) '' '' @ '']'' else with)
      in if with \<noteq> [] then with @ '':'' else with)"

definition attributes :: "extern \<Rightarrow> Record \<Rightarrow> string list" where
  "attributes ext record =
     map (\<lambda>attribute. Key attribute @ ''='' @ String ext (Value attribute)) (RAttrs record)"

definition source :: "extern \<Rightarrow> LogHandlerOptions \<Rightarrow> Record \<Rightarrow> panic + string" where
  "source ext opts record =
     (case AddSourceLevel opts of
        None \<Rightarrow> Inl NilDereference
      | Some sl \<Rightarrow>
          Inr (if RLevel record \<ge> sl then
                 (if PC record \<noteq> 0 then
                    (let (file, line) = CallersFrames ext (PC record) in
                     if SourceFilePath opts
                     then ''('' @ file @ '':'' @ Itoa line @ '')''
                     else ''('' @ Base ext file @ '':'' @ Itoa line @ '')'')
                  else [])
               else []))"

text \<open>Lines 256 to 274: the fields of the line, and the bytes written.\<close>

definition log_strings ::
  "string \<Rightarrow> int \<Rightarrow> 64 word \<Rightarrow> string \<Rightarrow> string \<Rightarrow> string \<Rightarrow> string list \<Rightarrow> string
     \<Rightarrow> string list" where
  "log_strings time p g lv with message as src =
     (let ls = [time];
          ls = (if p > 0 then ls @ [Sprintf_0X 4 (nat p)] else ls);
          ls = (if g > 0 then ls @ [Sprintf_0X 8 (unat g)] else ls);
          ls = ls @ [lv];
          ls = (if with \<noteq> [] then ls @ [with] else ls);
          ls = ls @ [message];
          ls = (if length as > 0 then ls @ [Join as '' ''] else ls);
          ls = (if src \<noteq> [] then ls @ [src] else ls)
      in ls)"

definition log_bytes ::
  "string \<Rightarrow> int \<Rightarrow> 64 word \<Rightarrow> string \<Rightarrow> string \<Rightarrow> string \<Rightarrow> string list \<Rightarrow> string
     \<Rightarrow> string" where
  "log_bytes time p g lv with message as src =
     Join (log_strings time p g lv with message as src) '' '' @ [CHR 0x0A]"

text \<open>
  \<^verbatim>\<open>Handle\<close>: the line is computed, then written by one call of \<^verbatim>\<open>Write\<close> on the
  handler's writer, whose error is returned; calling \<^verbatim>\<open>Write\<close> on the nil interface
  panics. The result is a panic, or the world after the call with the error returned
  (None is nil).
\<close>

definition Handle ::
  "extern \<Rightarrow> world \<Rightarrow> LogHandler \<Rightarrow> Record \<Rightarrow> panic + (world \<times> string option)" where
  "Handle ext w handler record =
     (let time = Format ext (Time record) (TimeLayout (options handler));
          p = pid ext (options handler)
      in case goroutineID ext (options handler) of
           Inl e \<Rightarrow> Inl e
         | Inr g \<Rightarrow>
             (let lv = level ext (options handler) (RLevel record);
                  with = with_clause ext (elems (groupmem w) (groups handler))
                           (elems (attrmem w) (attrs handler));
                  message = Message record;
                  as = attributes ext record
              in case source ext (options handler) record of
                   Inl e \<Rightarrow> Inl e
                 | Inr src \<Rightarrow>
                     (let bs = log_bytes time p g lv with message as src
                      in case writer handler of
                           None \<Rightarrow> Inl NilDereference
                         | Some wr \<Rightarrow>
                             Inr (w\<lparr>written := written w @ [(wr, bs)]\<rparr>,
                                  Write ext wr bs))))"

section \<open>Notions used to state the properties\<close>

text \<open>
  The sequences a handler holds, read through its slice headers in a given world, and the
  well-formedness of the two headers.
\<close>

definition attrs_of :: "world \<Rightarrow> LogHandler \<Rightarrow> Attr list" where
  "attrs_of w h = elems (attrmem w) (attrs h)"

definition groups_of :: "world \<Rightarrow> LogHandler \<Rightarrow> string list" where
  "groups_of w h = elems (groupmem w) (groups h)"

definition handler_ok :: "world \<Rightarrow> LogHandler \<Rightarrow> bool" where
  "handler_ok w h = (valid_slice (attrmem w) (attrs h) \<and> valid_slice (groupmem w) (groups h))"

text \<open>A sequence of derivations applied to a handler, first call first.\<close>

datatype derivation = CallWithAttrs "Attr list" | CallWithGroup string

fun derive ::
  "extern \<Rightarrow> world \<Rightarrow> LogHandler \<Rightarrow> derivation list \<Rightarrow> LogHandler \<times> world" where
  "derive ext w h [] = (h, w)"
| "derive ext w h (CallWithAttrs as # ds) =
     (case WithAttrs ext w h as of (h', w') \<Rightarrow> derive ext w' h' ds)"
| "derive ext w h (CallWithGroup name # ds) =
     (case WithGroup ext w h name of (h', w') \<Rightarrow> derive ext w' h' ds)"

fun group_names :: "derivation list \<Rightarrow> string list" where
  "group_names [] = []"
| "group_names (CallWithAttrs as # ds) = group_names ds"
| "group_names (CallWithGroup name # ds) = name # group_names ds"

fun attr_pairs :: "derivation list \<Rightarrow> Attr list" where
  "attr_pairs [] = []"
| "attr_pairs (CallWithAttrs as # ds) = as @ attr_pairs ds"
| "attr_pairs (CallWithGroup name # ds) = attr_pairs ds"

text \<open>The scope prefix \<^verbatim>\<open>Handle\<close> computes for a handler in a world (its variable \<^verbatim>\<open>with\<close>).\<close>

definition with_of :: "extern \<Rightarrow> world \<Rightarrow> LogHandler \<Rightarrow> string" where
  "with_of ext w h = with_clause ext (groups_of w h) (attrs_of w h)"

text \<open>A value whose string form does not depend on the state of the program.\<close>

fun fixed_value :: "Value \<Rightarrow> bool" where
  "fixed_value (AnyValue r) = False"
| "fixed_value v = True"

text \<open>The number a string of hexadecimal digits denotes.\<close>

definition hexval_digit :: "char \<Rightarrow> nat" where
  "hexval_digit c = (if (of_char c :: nat) < 58 then (of_char c :: nat) - 48
                     else (of_char c :: nat) - 55)"

definition hexval :: "string \<Rightarrow> nat" where
  "hexval s = foldl (\<lambda>n c. 16 * n + hexval_digit c) 0 s"

subsection \<open>Configuration resolution as the specification words it\<close>

text \<open>
  Unset fields take the documented defaults; then each environment variable overrides
  its field when it is well-formed, and leaves it untouched otherwise.
\<close>

definition spec_defaults :: "LogHandlerOptions \<Rightarrow> LogHandlerOptions" where
  "spec_defaults p =
     \<lparr>Level = Some (case Level p of None \<Rightarrow> LevelInfo | Some l \<Rightarrow> l),
      AddColor = AddColor p,
      TimeLayout = (if TimeLayout p = [] then ''2006/01/02 15:04:05'' else TimeLayout p),
      AddPID = AddPID p,
      AddGoroutineID = AddGoroutineID p,
      AddSourceLevel = Some (case AddSourceLevel p of None \<Rightarrow> LevelWarn | Some l \<Rightarrow> l),
      SourceFilePath = SourceFilePath p\<rparr>"

definition spec_level_var :: "string \<Rightarrow> Level option" where
  "spec_level_var v =
     (if v = ''ERROR'' then Some LevelError
      else if v = ''WARN'' then Some LevelWarn
      else if v = ''INFO'' then Some LevelInfo
      else if v = ''DEBUG'' then Some LevelDebug
      else None)"

definition spec_bool_var :: "string \<Rightarrow> bool option" where
  "spec_bool_var v =
     (if EqualFold v ''true'' \<or> v = ''1'' then Some True
      else if EqualFold v ''false'' \<or> v = ''0'' then Some False
      else None)"

definition spec_resolve :: "extern \<Rightarrow> LogHandlerOptions option \<Rightarrow> LogHandlerOptions" where
  "spec_resolve ext opts =
     (let d = spec_defaults (case opts of None \<Rightarrow> zero_options | Some p \<Rightarrow> p) in
      \<lparr>Level = (case spec_level_var (Getenv ext ''GO_NSLOG_LEVEL'') of
                  None \<Rightarrow> Level d | Some l \<Rightarrow> Some l),
       AddColor = (case spec_bool_var (Getenv ext ''GO_NSLOG_ADD_COLOR'') of
                  None \<Rightarrow> AddColor d | Some b \<Rightarrow> b),
       TimeLayout = (if Getenv ext ''GO_NSLOG_TIME_LAYOUT'' = [] then TimeLayout d
                     else Getenv ext ''GO_NSLOG_TIME_LAYOUT''),
       AddPID = (case spec_bool_var (Getenv ext ''GO_NSLOG_ADD_PID'') of
                  None \<Rightarrow> AddPID d | Some b \<Rightarrow> b),
       AddGoroutineID = (case spec_bool_var (Getenv ext ''GO_NSLOG_ADD_GOROUTINEID'') of
                  None \<Rightarrow> AddGoroutineID d | Some b \<Rightarrow> b),
       AddSourceLevel = (case spec_level_var (Getenv ext ''GO_NSLOG_ADD_SOURCE_LEVEL'') of
                  None \<Rightarrow> AddSourceLevel d | Some l \<Rightarrow> Some l),
       SourceFilePath = (case spec_bool_var (Getenv ext ''GO_NSLOG_SOURCE_FILE_PATH'') of
                  None \<Rightarrow> SourceFilePath d | Some b \<Rightarrow> b)\<rparr>)"

subsection \<open>Concrete inputs\<close>

text \<open>
  An environment with no variable set, process id 70000, goroutine 18, a clock that
  prints one fixed time, a colour library that leaves its argument as it is, and a
  writer that never fails; an empty world; the handler that \<^verbatim>\<open>NewLogHandler\<close> builds
  there for writer 0 and nil options, with the world it leaves; and an Info record with
  the message \<^verbatim>\<open>message\<close>.
\<close>

definition ex_ext :: extern where
  "ex_ext = \<lparr>Getenv = (\<lambda>v. []), Getpid = 70000, Stack = ''goroutine 18 [running]:'',
     Format = (\<lambda>t l. ''2024/10/31 11:22:33''),
     HiRedString = (\<lambda>s. s), HiYellowString = (\<lambda>s. s),
     HiGreenString = (\<lambda>s. s), HiCyanString = (\<lambda>s. s),
     CallersFrames = (\<lambda>pc. (''/work/main.go'', 19)), Base = (\<lambda>p. ''main.go''),
     Sprint = (\<lambda>r. ''a''), growslice = (\<lambda>old n. 2 * n), Write = (\<lambda>w b. None)\<rparr>"

definition ex_world :: world where
  "ex_world = \<lparr>attrmem = [], groupmem = [], mutexes = 0, written = []\<rparr>"

definition ex_options :: LogHandlerOptions where
  "ex_options = \<lparr>Level = Some 0, AddColor = False, TimeLayout = ''2006/01/02 15:04:05'',
     AddPID = False, AddGoroutineID = False, AddSourceLevel = Some 4,
     SourceFilePath = False\<rparr>"

definition ex_handler :: LogHandler where
  "ex_handler = \<lparr>options = ex_options, attrs = nil_slice, groups = nil_slice,
     mutex = 0, writer = Some 0\<rparr>"

definition ex_world1 :: world where
  "ex_world1 = \<lparr>attrmem = [], groupmem = [], mutexes = 1, written = []\<rparr>"

definition ex_record :: Record where
  "ex_record = \<lparr>Time = 0, RLevel = LevelInfo, Message = ''message'', PC = 0, RAttrs = []\<rparr>"

text \<open>
  Two ways to derive the same groups and attribute from a handler: both groups first, or
  the attribute between the groups.
\<close>

definition ex_ds1 :: "derivation list" where
  "ex_ds1 = [CallWithGroup ''G1'', CallWithGroup ''G2'',
             CallWithAttrs [\<lparr>Key = ''pid'', Value = Int64Value 0\<rparr>]]"

definition ex_ds2 :: "derivation list" where
  "ex_ds2 = [CallWithGroup ''G1'', CallWithAttrs [\<lparr>Key = ''pid'', Value = Int64Value 0\<rparr>],
             CallWithGroup ''G2'']"

text \<open>
  Further inputs: a Debug record; a record with the empty message and one attribute; the
  handler with the process id switched on, and with the goroutine id as well.
\<close>

definition ex_record_debug :: Record where
  "ex_record_debug = \<lparr>Time = 0, RLevel = LevelDebug, Message = ''message'', PC = 0, RAttrs = []\<rparr>"

definition ex_record_empty :: Record where
  "ex_record_empty = \<lparr>Time = 0, RLevel = LevelInfo, Message = [], PC = 0,
     RAttrs = [\<lparr>Key = ''k'', Value = StringValue ''v''\<rparr>]\<rparr>"

definition ex_handler_pid :: LogHandler where
  "ex_handler_pid = \<lparr>options = ex_options\<lparr>AddPID := True\<rparr>, attrs = nil_slice,
     groups = nil_slice, mutex = 0, writer = Some 0\<rparr>"

definition ex_handler_ids :: LogHandler where
  "ex_handler_ids = \<lparr>options = ex_options\<lparr>AddPID := True, AddGoroutineID := True\<rparr>,
     attrs = nil_slice, groups = nil_slice, mutex = 0, writer = Some 0\<rparr>"

text \<open>
  The same environment at a later moment, when the object behind reference 0 prints as
  \<^verbatim>\<open>b\<close> and no longer as \<^verbatim>\<open>a\<close>; an attribute whose value is that reference,
  the handler \<^verbatim>\<open>WithAttrs\<close> derives with it, and an attribute of kind Int64.
\<close>

definition ex_ext_later :: extern where
  "ex_ext_later = ex_ext\<lparr>Sprint := (\<lambda>r. ''b'')\<rparr>"

definition ex_any_attrs :: "Attr list" where
  "ex_any_attrs = [\<lparr>Key = ''k'', Value = AnyValue 0\<rparr>]"

definition ex_with_any :: "LogHandler \<times> world" where
  "ex_with_any = WithAttrs ex_ext ex_world1 ex_handler ex_any_attrs"

definition ex_pid_attrs :: "Attr list" where
  "ex_pid_attrs = [\<lparr>Key = ''pid'', Value = Int64Value 0\<rparr>]"

text \<open>
  A parent with one attribute, whose array has spare capacity, and two children derived
  from it one after the other.
\<close>

definition ex_attr_a :: Attr where "ex_attr_a = \<lparr>Key = ''a'', Value = Int64Value 1\<rparr>"

definition ex_attr_b :: Attr where "ex_attr_b = \<lparr>Key = ''b'', Value = Int64Value 2\<rparr>"

definition ex_attr_c :: Attr where "ex_attr_c = \<lparr>Key = ''c'', Value = Int64Value 3\<rparr>"

definition ex_parent :: "LogHandler \<times> world" where
  "ex_parent = WithAttrs ex_ext ex_world1 ex_handler [ex_attr_a]"

definition ex_child1 :: "LogHandler \<times> world" where
  "ex_child1 = WithAttrs ex_ext (snd ex_parent) (fst ex_parent) [ex_attr_b]"

definition ex_child2 :: "LogHandler \<times> world" where
  "ex_child2 = WithAttrs ex_ext (snd ex_child1) (fst ex_parent) [ex_attr_c]"

text \<open>
  A handler that already has the group A, and the handlers derived from it with the empty
  group name and then with the group G.
\<close>

definition ex_grouped :: "LogHandler \<times> world" where
  "ex_grouped = WithGroup ex_ext ex_world1 ex_handler ''A''"

definition ex_grouped1 :: "LogHandler \<times> world" where
  "ex_grouped1 = WithGroup ex_ext (snd ex_grouped) (fst ex_grouped) []"

definition ex_grouped2 :: "LogHandler \<times> world" where
  "ex_grouped2 = WithGroup ex_ext (snd ex_grouped1) (fst ex_grouped1) ''G''"

text \<open>
  An environment that sets the level to DEBUG and the process id flag to TRUE, and holds
  two values that are not well-formed: \<^verbatim>\<open>yes\<close> for a flag and \<^verbatim>\<open>debug\<close> for a level.
\<close>

definition ex_ext_env :: extern where
  "ex_ext_env = ex_ext\<lparr>Getenv :=
     (\<lambda>v. if v = ''GO_NSLOG_LEVEL'' then ''DEBUG''
          else if v = ''GO_NSLOG_ADD_PID'' then ''TRUE''
          else if v = ''GO_NSLOG_ADD_COLOR'' then ''yes''
          else if v = ''GO_NSLOG_ADD_SOURCE_LEVEL'' then ''debug''
          else [])\<rparr>"

section \<open>Slices: clipping makes append allocate\<close>

lemma valid_slice_Clip: "valid_slice mem s \<Longrightarrow> valid_slice mem (Clip s)"
  by (auto simp: valid_slice_def Clip_def split: option.splits)

lemma elems_Clip: "elems mem (Clip s) = elems mem s"
  by (simp add: elems_def Clip_def split: option.splits)

lemma length_elems: "valid_slice mem s \<Longrightarrow> length (elems mem s) = len s"
  by (auto simp: valid_slice_def elems_def split: option.splits)

lemma append_slice_Clip_nil:
  assumes "valid_slice mem s"
  shows "append_slice ext z mem (Clip s) [] = (Clip s, mem)"
  using assms
  by (auto simp: append_slice_def Clip_def valid_slice_def Let_def split: option.splits)

lemma append_slice_Clip_cons:
  assumes "xs \<noteq> []"
  shows "append_slice ext z mem (Clip s) xs =
     (\<lparr>array = Some (length mem), len = len s + length xs,
       cap = max (len s + length xs) (growslice ext (len s) (len s + length xs))\<rparr>,
      mem @ [elems mem s @ xs @ replicate (max (len s + length xs) (growslice ext (len s) (len s + length xs)) - (len s + length xs)) z])"
  using assms
  by (auto simp: append_slice_def Clip_def Let_def elems_def split: option.splits)

lemma valid_slice_grow: "valid_slice mem t \<Longrightarrow> valid_slice (mem @ [a]) t"
  by (auto simp: valid_slice_def nth_append split: option.splits)

lemma elems_grow: "valid_slice mem t \<Longrightarrow> elems (mem @ [a]) t = elems mem t"
  by (auto simp: valid_slice_def elems_def nth_append split: option.splits)

lemma append_slice_Clip:
  assumes v: "valid_slice mem s" and a: "append_slice ext z mem (Clip s) xs = (s', mem')"
  shows "elems mem' s' = elems mem s @ xs"
    and "valid_slice mem' s'"
    and "valid_slice mem t \<Longrightarrow> valid_slice mem' t"
    and "valid_slice mem t \<Longrightarrow> elems mem' t = elems mem t"
proof -
  have "(elems mem' s' = elems mem s @ xs \<and> valid_slice mem' s') \<and>
        (valid_slice mem t \<longrightarrow> valid_slice mem' t \<and> elems mem' t = elems mem t)"
  proof (cases "xs = []")
    case True
    with v a have "s' = Clip s" "mem' = mem" by (simp_all add: append_slice_Clip_nil)
    then show ?thesis using v True by (simp add: elems_Clip valid_slice_Clip)
  next
    case False
    let ?n = "len s + length xs"
    let ?c = "max ?n (growslice ext (len s) ?n)"
    from a False have s': "s' = \<lparr>array = Some (length mem), len = ?n, cap = ?c\<rparr>"
      and m': "mem' = mem @ [elems mem s @ xs @ replicate (?c - ?n) z]"
      by (simp_all add: append_slice_Clip_cons)
    have "elems mem' s' = elems mem s @ xs"
      using length_elems [OF v] by (simp add: s' m' elems_def)
    moreover have "valid_slice mem' s'"
      using length_elems [OF v] by (simp add: s' m' valid_slice_def)
    ultimately show ?thesis by (simp add: m' valid_slice_grow elems_grow)
  qed
  then show "elems mem' s' = elems mem s @ xs" "valid_slice mem' s'"
    "valid_slice mem t \<Longrightarrow> valid_slice mem' t" "valid_slice mem t \<Longrightarrow> elems mem' t = elems mem t"
    by simp_all
qed

section \<open>Derived handlers\<close>

lemma NewLogHandler_shape:
  "\<exists>p. NewLogHandler ext w wr opts =
     (\<lparr>options = p, attrs = nil_slice, groups = nil_slice, mutex = mutexes w, writer = wr\<rparr>,
      map_option (\<lambda>_. p) opts, w\<lparr>mutexes := Suc (mutexes w)\<rparr>)"
  unfolding NewLogHandler_def Let_def by (cases opts) simp_all

lemma nil_slice_ok: "valid_slice mem nil_slice" "elems mem nil_slice = []"
  by (simp_all add: valid_slice_def nil_slice_def elems_def)

lemma NewLogHandler_ok:
  assumes "NewLogHandler ext w wr opts = (h, p, w')"
  shows "handler_ok w' h \<and> attrs_of w' h = [] \<and> groups_of w' h = []"
proof -
  from NewLogHandler_shape [of ext w wr opts] assms
  obtain q where "h = \<lparr>options = q, attrs = nil_slice, groups = nil_slice, mutex = mutexes w, writer = wr\<rparr>"
    by auto
  then show ?thesis by (simp add: handler_ok_def attrs_of_def groups_of_def nil_slice_ok)
qed

lemma WithAttrs_unfold:
  assumes "WithAttrs ext w h as = (h', w')"
  obtains s m where "append_slice ext zero_Attr (attrmem w) (Clip (attrs h)) as = (s, m)"
    and "h' = \<lparr>options = options h, attrs = s, groups = Clip (groups h), mutex = mutex h, writer = writer h\<rparr>"
    and "w' = w\<lparr>attrmem := m\<rparr>"
  using assms
  by (cases "append_slice ext zero_Attr (attrmem w) (Clip (attrs h)) as")
     (auto simp: WithAttrs_def clone_def Let_def)

lemma WithGroup_unfold:
  assumes "WithGroup ext w h name = (h', w')"
  obtains s m where "append_slice ext [] (groupmem w) (Clip (groups h)) [name] = (s, m)"
    and "h' = \<lparr>options = options h, attrs = Clip (attrs h), groups = s, mutex = mutex h, writer = writer h\<rparr>"
    and "w' = w\<lparr>groupmem := m\<rparr>"
  using assms
  by (cases "append_slice ext [] (groupmem w) (Clip (groups h)) [name]")
     (auto simp: WithGroup_def clone_def Let_def)

lemma WithAttrs_props:
  assumes ok: "handler_ok w h" and W: "WithAttrs ext w h as = (h', w')"
  shows "attrs_of w' h' = attrs_of w h @ as"
    and "groups_of w' h' = groups_of w h"
    and "handler_ok w' h'"
    and "options h' = options h \<and> mutex h' = mutex h \<and> writer h' = writer h"
    and "groupmem w' = groupmem w \<and> written w' = written w \<and> mutexes w' = mutexes w"
    and "handler_ok w k \<Longrightarrow> handler_ok w' k \<and> attrs_of w' k = attrs_of w k \<and> groups_of w' k = groups_of w k"
proof -
  from W obtain s m where a: "append_slice ext zero_Attr (attrmem w) (Clip (attrs h)) as = (s, m)"
    and h': "h' = \<lparr>options = options h, attrs = s, groups = Clip (groups h), mutex = mutex h, writer = writer h\<rparr>"
    and w': "w' = w\<lparr>attrmem := m\<rparr>"
    by (rule WithAttrs_unfold)
  from ok have va: "valid_slice (attrmem w) (attrs h)" and vg: "valid_slice (groupmem w) (groups h)"
    by (simp_all add: handler_ok_def)
  show "attrs_of w' h' = attrs_of w h @ as"
    using append_slice_Clip(1) [OF va a] by (simp add: attrs_of_def h' w')
  show "groups_of w' h' = groups_of w h"
    by (simp add: groups_of_def h' w' elems_Clip)
  show "handler_ok w' h'"
    using append_slice_Clip(2) [OF va a] valid_slice_Clip [OF vg]
    by (simp add: handler_ok_def h' w')
  show "options h' = options h \<and> mutex h' = mutex h \<and> writer h' = writer h"
    by (simp add: h')
  show "groupmem w' = groupmem w \<and> written w' = written w \<and> mutexes w' = mutexes w"
    by (simp add: w')
  show "handler_ok w' k \<and> attrs_of w' k = attrs_of w k \<and> groups_of w' k = groups_of w k"
    if "handler_ok w k"
    using that append_slice_Clip(3,4) [OF va a, of "attrs k"]
    by (simp add: handler_ok_def attrs_of_def groups_of_def w')
qed

lemma WithGroup_props:
  assumes ok: "handler_ok w h" and W: "WithGroup ext w h name = (h', w')"
  shows "groups_of w' h' = groups_of w h @ [name]"
    and "attrs_of w' h' = attrs_of w h"
    and "handler_ok w' h'"
    and "options h' = options h \<and> mutex h' = mutex h \<and> writer h' = writer h"
    and "attrmem w' = attrmem w \<and> written w' = written w \<and> mutexes w' = mutexes w"
    and "handler_ok w k \<Longrightarrow> handler_ok w' k \<and> attrs_of w' k = attrs_of w k \<and> groups_of w' k = groups_of w k"
proof -
  from W obtain s m where a: "append_slice ext [] (groupmem w) (Clip (groups h)) [name] = (s, m)"
    and h': "h' = \<lparr>options = options h, attrs = Clip (attrs h), groups = s, mutex = mutex h, writer = writer h\<rparr>"
    and w': "w' = w\<lparr>groupmem := m\<rparr>"
    by (rule WithGroup_unfold)
  from ok have va: "valid_slice (attrmem w) (attrs h)" and vg: "valid_slice (groupmem w) (groups h)"
    by (simp_all add: handler_ok_def)
  show "groups_of w' h' = groups_of w h @ [name]"
    using append_slice_Clip(1) [OF vg a] by (simp add: groups_of_def h' w')
  show "attrs_of w' h' = attrs_of w h"
    by (simp add: attrs_of_def h' w' elems_Clip)
  show "handler_ok w' h'"
    using append_slice_Clip(2) [OF vg a] valid_slice_Clip [OF va]
    by (simp add: handler_ok_def h' w')
  show "options h' = options h \<and> mutex h' = mutex h \<and> writer h' = writer h"
    by (simp add: h')
  show "attrmem w' = attrmem w \<and> written w' = written w \<and> mutexes w' = mutexes w"
    by (simp add: w')
  show "handler_ok w' k \<and> attrs_of w' k = attrs_of w k \<and> groups_of w' k = groups_of w k"
    if "handler_ok w k"
    using that append_slice_Clip(3,4) [OF vg a, of "groups k"]
    by (simp add: handler_ok_def attrs_of_def groups_of_def w')
qed

lemma derive_props:
  "handler_ok w h \<Longrightarrow> derive ext w h ds = (h', w') \<Longrightarrow>
     groups_of w' h' = groups_of w h @ group_names ds \<and>
     attrs_of w' h' = attrs_of w h @ attr_pairs ds \<and> handler_ok w' h'"
proof (induction ext w h ds rule: derive.induct)
  case (1 ext w h)
  then show ?case by simp
next
  case (2 ext w h as ds)
  obtain h1 w1 where W: "WithAttrs ext w h as = (h1, w1)" by force
  with 2 show ?case
    using WithAttrs_props(1,2,3) [OF "2.prems"(1) W] by simp
next
  case (3 ext w h name ds)
  obtain h1 w1 where W: "WithGroup ext w h name = (h1, w1)" by force
  with 3 show ?case
    using WithGroup_props(1,2,3) [OF "3.prems"(1) W] by simp
qed

section \<open>The line\<close>

lemma Handle_Inr:
  assumes "goroutineID ext (options h) = Inr g" and "source ext (options h) r = Inr src"
    and "writer h = Some wr"
  shows "Handle ext w h r =
     Inr (w\<lparr>written := written w @
            [(wr, log_bytes (Format ext (Time r) (TimeLayout (options h)))
                 (pid ext (options h)) g (level ext (options h) (RLevel r)) (with_of ext w h)
                 (Message r) (attributes ext r) src)]\<rparr>,
          Write ext wr
            (log_bytes (Format ext (Time r) (TimeLayout (options h)))
                 (pid ext (options h)) g (level ext (options h) (RLevel r)) (with_of ext w h)
                 (Message r) (attributes ext r) src))"
  using assms
  by (simp add: Handle_def Let_def with_of_def attrs_of_def groups_of_def)

lemma log_strings_fields:
  "log_strings t p g lv w m ats src =
     t # (if p > 0 then [Sprintf_0X 4 (nat p)] else []) @
         (if g > 0 then [Sprintf_0X 8 (unat g)] else []) @
     lv # (if w = [] then [] else [w]) @
     m # (if ats = [] then [] else [Join ats '' '']) @ (if src = [] then [] else [src])"
  by (simp add: log_strings_def)

lemma Join_nonempty: "xs \<noteq> [] \<Longrightarrow> hd xs \<noteq> [] \<Longrightarrow> Join xs sep \<noteq> []"
  by (induction xs sep rule: Join.induct) auto

lemma attributes_Join_nonempty: "attributes ext r \<noteq> [] \<Longrightarrow> Join (attributes ext r) sep \<noteq> []"
  by (rule Join_nonempty) (auto simp: attributes_def hd_map)

lemma with_clause_shape:
  "with_clause ext gs as =
     Join gs ''.'' @
     (if as = [] then []
      else ''['' @ Join (map (\<lambda>a. Key a @ ''='' @ String ext (Value a)) as) '' '' @ '']'') @
     (if Join gs ''.'' = [] \<and> as = [] then [] else '':'')"
  by (cases gs) (simp_all add: with_clause_def withGroup_def withAttributes_def Let_def)

lemma Level_unused:
  "pid ext (p\<lparr>Level := x\<rparr>) = pid ext p"
  "goroutineID ext (p\<lparr>Level := x\<rparr>) = goroutineID ext p"
  "level ext (p\<lparr>Level := x\<rparr>) l = level ext p l"
  "source ext (p\<lparr>Level := x\<rparr>) r = source ext p r"
  by (simp_all add: pid_def goroutineID_def level_def source_def split: option.splits)

subsection \<open>Hexadecimal fields\<close>

lemma digits16_nonempty: "digits16 n \<noteq> []"
  by (subst digits16.simps) simp

lemma Sprintf_0X_nonempty: "Sprintf_0X k n \<noteq> []"
  by (simp add: Sprintf_0X_def digits16_nonempty)

lemma hexdigit_in: "d < 16 \<Longrightarrow> hexdigit d \<in> set ''0123456789ABCDEF''"
  unfolding hexdigit_def by (rule nth_mem) simp

lemma digits16_set: "set (digits16 n) \<subseteq> set ''0123456789ABCDEF''"
proof (induction n rule: digits16.induct)
  case (1 n)
  show ?case
  proof (cases "n < 16")
    case True
    then show ?thesis using hexdigit_in [of n] by (subst digits16.simps) simp
  next
    case False
    then show ?thesis using 1 hexdigit_in [of "n mod 16"] by (subst digits16.simps) simp
  qed
qed

lemma hexval_hexdigit: "d < 16 \<Longrightarrow> hexval_digit (hexdigit d) = d"
proof -
  assume "d < 16"
  then have "d \<in> {0, 1, 2, 3, 4, 5, 6, 7, 8, 9, 10, 11, 12, 13, 14, 15}" by simp arith
  then show ?thesis
    by (auto simp: hexdigit_def hexval_digit_def)
qed

lemma hexval_snoc: "hexval (s @ [c]) = 16 * hexval s + hexval_digit c"
  by (simp add: hexval_def)

lemma hexval_digits16: "hexval (digits16 n) = n"
proof (induction n rule: digits16.induct)
  case (1 n)
  show ?case
  proof (cases "n < 16")
    case True
    then show ?thesis by (subst digits16.simps) (simp add: hexval_def hexval_hexdigit)
  next
    case False
    then show ?thesis using 1 by (subst digits16.simps) (simp add: hexval_snoc hexval_hexdigit)
  qed
qed

lemma hexval_zeros: "hexval (replicate j (CHR ''0'') @ s) = hexval s"
proof -
  have "foldl (\<lambda>n c. 16 * n + hexval_digit c) 0 (replicate j (CHR ''0'')) = 0"
    by (induction j) (simp_all add: hexval_digit_def)
  then show ?thesis by (simp add: hexval_def)
qed

lemma length_digits16: "0 < k \<Longrightarrow> length (digits16 n) \<le> k \<longleftrightarrow> n < 16 ^ k"
proof (induction n arbitrary: k rule: digits16.induct)
  case (1 n)
  show ?case
  proof (cases "n < 16")
    case True
    have "(16::nat) ^ 1 \<le> 16 ^ k" using "1.prems" by (intro power_increasing) simp_all
    with True have "n < 16 ^ k" by simp
    with True "1.prems" show ?thesis by (subst digits16.simps) simp
  next
    case False
    show ?thesis
    proof (cases k)
      case 0
      with "1.prems" show ?thesis by simp
    next
      case (Suc j)
      show ?thesis
      proof (cases "j = 0")
        case True
        with False Suc show ?thesis
          by (subst digits16.simps) (simp add: digits16_nonempty Suc_le_eq)
      next
        case j: False
        with 1(1) [OF False, of j] have "length (digits16 (n div 16)) \<le> j \<longleftrightarrow> n div 16 < 16 ^ j"
          by simp
        moreover have "n div 16 < 16 ^ j \<longleftrightarrow> n < 16 ^ Suc j"
          by (simp add: less_mult_imp_div_less div_less_iff_less_mult mult.commute)
        ultimately show ?thesis using False Suc by (subst digits16.simps) simp
      qed
    qed
  qed
qed

lemma Sprintf_0X_props:
  "length (Sprintf_0X k n) = max k (length (digits16 n))"
  "set (Sprintf_0X k n) \<subseteq> set ''0123456789ABCDEF''"
  "hexval (Sprintf_0X k n) = n"
  "0 < k \<Longrightarrow> length (Sprintf_0X k n) = k \<longleftrightarrow> n < 16 ^ k"
proof -
  show "length (Sprintf_0X k n) = max k (length (digits16 n))"
    by (simp add: Sprintf_0X_def)
  show "set (Sprintf_0X k n) \<subseteq> set ''0123456789ABCDEF''"
    using digits16_set [of n] by (auto simp: Sprintf_0X_def)
  show "hexval (Sprintf_0X k n) = n"
    by (simp add: Sprintf_0X_def hexval_zeros hexval_digits16)
  show "length (Sprintf_0X k n) = k \<longleftrightarrow> n < 16 ^ k" if "0 < k"
    using length_digits16 [OF that, of n] by (auto simp: Sprintf_0X_def)
qed

section \<open>Configuration resolution\<close>

lemma EqualFold_true_false: "EqualFold v ''true'' \<Longrightarrow> \<not> EqualFold v ''false''"
  by (cases v) (auto simp: stripRune_def ToLower_def ToUpper_def split: if_splits)

lemma EqualFold_digits: "\<not> EqualFold ''0'' ''true''" "\<not> EqualFold ''1'' ''false''"
  by (simp_all add: stripRune_def ToLower_def ToUpper_def)

lemma if_flag_spec: "if_flag v cur = (case spec_bool_var v of None \<Rightarrow> cur | Some b \<Rightarrow> b)"
  using EqualFold_true_false [of v] EqualFold_digits
  by (auto simp: if_flag_def spec_bool_var_def)

lemma switch_level_spec:
  "switch_level v cur = (case spec_level_var v of None \<Rightarrow> cur | Some l \<Rightarrow> Some l)"
  by (simp add: switch_level_def spec_level_var_def)

lemma defaults_step:
  "(let o0 = p;
        o1 = (if Level o0 = None then o0\<lparr>Level := Some DEFAULT_LEVEL\<rparr> else o0);
        o2 = (if TimeLayout o1 = [] then o1\<lparr>TimeLayout := DEFAULT_TIME_LAYOUT\<rparr> else o1)
    in (if AddSourceLevel o2 = None
                then o2\<lparr>AddSourceLevel := Some DEFAULT_SOURCE_LEVEL\<rparr> else o2)) = spec_defaults p"
  by (cases p) (simp add: spec_defaults_def Let_def DEFAULT_LEVEL_def DEFAULT_SOURCE_LEVEL_def DEFAULT_TIME_LAYOUT_def split: option.splits)

lemma NewLogHandler_options:
  "options (fst (NewLogHandler ext w wr opts)) = spec_resolve ext opts"
proof -
  define d where "d = spec_defaults (case opts of None \<Rightarrow> zero_options | Some p \<Rightarrow> p)"
  have "options (fst (NewLogHandler ext w wr opts)) =
     (let o4 = d\<lparr>Level := switch_level (Getenv ext ''GO_NSLOG_LEVEL'') (Level d)\<rparr>;
          o5 = o4\<lparr>AddColor := if_flag (Getenv ext ''GO_NSLOG_ADD_COLOR'') (AddColor o4)\<rparr>;
          nslogTimeLayout = Getenv ext ''GO_NSLOG_TIME_LAYOUT'';
          o6 = (if nslogTimeLayout \<noteq> [] then o5\<lparr>TimeLayout := nslogTimeLayout\<rparr> else o5);
          o7 = o6\<lparr>AddPID := if_flag (Getenv ext ''GO_NSLOG_ADD_PID'') (AddPID o6)\<rparr>;
          o8 = o7\<lparr>AddGoroutineID :=
                     if_flag (Getenv ext ''GO_NSLOG_ADD_GOROUTINEID'') (AddGoroutineID o7)\<rparr>;
          o9 = o8\<lparr>AddSourceLevel :=
                     switch_level (Getenv ext ''GO_NSLOG_ADD_SOURCE_LEVEL'') (AddSourceLevel o8)\<rparr>
      in o9\<lparr>SourceFilePath :=
                     if_flag (Getenv ext ''GO_NSLOG_SOURCE_FILE_PATH'') (SourceFilePath o9)\<rparr>)"
    unfolding d_def defaults_step [symmetric] NewLogHandler_def Let_def by simp
  also have "\<dots> = spec_resolve ext opts"
    unfolding spec_resolve_def d_def [symmetric] Let_def if_flag_spec switch_level_spec
    by (cases d) (simp cong del: option.case_cong_weak)
  finally show ?thesis .
qed

lemma spec_resolved_set:
  "Level (spec_resolve ext opts) \<noteq> None"
  "TimeLayout (spec_resolve ext opts) \<noteq> []"
  "AddSourceLevel (spec_resolve ext opts) \<noteq> None"
  by (simp_all add: spec_resolve_def spec_defaults_def Let_def split: option.splits)

lemma ex_flags:
  "spec_bool_var ''TRUE'' = Some True" "spec_bool_var ''yes'' = None" "spec_bool_var [] = None"
  by (simp_all add: spec_bool_var_def stripRune_def ToLower_def ToUpper_def)

section \<open>Evaluation on the concrete inputs\<close>

lemmas eval_defs = WithGroup_def WithAttrs_def clone_def append_slice_def Clip_def nil_slice_def
  Let_def with_of_def with_clause_def elems_def withGroup_def withAttributes_def String_def
  Itoa_def attrs_of_def groups_of_def handler_ok_def valid_slice_def zero_Attr_def

lemmas handle_defs = Handle_def pid_def goroutineID_def level_def source_def log_bytes_def
  log_strings_def attributes_def with_clause_def withGroup_def withAttributes_def elems_def
  String_def Let_def LevelDebug_def LevelInfo_def LevelWarn_def LevelError_def
  ex_ext_def ex_world1_def ex_handler_def ex_options_def ex_record_def nil_slice_def

lemma ex_handler_built:
  "NewLogHandler ex_ext ex_world (Some 0) None = (ex_handler, None, ex_world1)"
  by (simp add: NewLogHandler_def Let_def zero_options_def ex_ext_def ex_world_def ex_world1_def
      ex_handler_def ex_options_def switch_level_def if_flag_def stripRune_def
      DEFAULT_LEVEL_def DEFAULT_SOURCE_LEVEL_def DEFAULT_TIME_LAYOUT_def LevelInfo_def
      LevelWarn_def)

lemma ex_handler_ok: "handler_ok ex_world1 ex_handler"
  by (simp add: handler_ok_def valid_slice_def ex_world1_def ex_handler_def nil_slice_def)

lemma replicate_numeral: "replicate (numeral k) x = x # replicate (pred_numeral k) x"
  by (simp add: numeral_eq_Suc)

lemma ex_goroutine: "goroutineID ex_ext (options ex_handler_ids) = Inr 18"
  by (simp add: handle_defs ex_handler_ids_def TrimPrefix_def ParseUint_def is_digit_def maxUint64_def)

lemma ex_hex: "Sprintf_0X 4 255 = ''00FF''" "Sprintf_0X 4 70000 = ''11170''" "Sprintf_0X 8 18 = ''00000012''"
  by (simp_all add: Sprintf_0X_def digits16.simps hexdigit_def replicate_numeral)

lemma ex_ds1_value:
  "(case derive ex_ext ex_world1 ex_handler ex_ds1 of (h1, w1) \<Rightarrow> with_of ex_ext w1 h1) = ''G1.G2[pid=0]:''"
  by (simp add: ex_ds1_def ex_world1_def ex_handler_def ex_ext_def eval_defs digits10.simps)

lemma ex_with_any_value:
  "ex_with_any =
     (\<lparr>options = ex_options, attrs = \<lparr>array = Some 0, len = 1, cap = 2\<rparr>, groups = nil_slice,
       mutex = 0, writer = Some 0\<rparr>,
      \<lparr>attrmem = [[\<lparr>Key = ''k'', Value = AnyValue 0\<rparr>, zero_Attr]], groupmem = [],
       mutexes = 1, written = []\<rparr>)"
  by (simp add: ex_with_any_def ex_any_attrs_def WithAttrs_def clone_def append_slice_def Clip_def
      nil_slice_def Let_def elems_def ex_world1_def ex_handler_def ex_ext_def)

lemma ex_family:
  "ex_parent = (\<lparr>options = ex_options, attrs = \<lparr>array = Some 0, len = 1, cap = 2\<rparr>,
                  groups = nil_slice, mutex = 0, writer = Some 0\<rparr>,
                \<lparr>attrmem = [[ex_attr_a, zero_Attr]], groupmem = [], mutexes = 1, written = []\<rparr>)"
  "ex_child1 = (\<lparr>options = ex_options, attrs = \<lparr>array = Some 1, len = 2, cap = 4\<rparr>,
                  groups = nil_slice, mutex = 0, writer = Some 0\<rparr>,
                \<lparr>attrmem = [[ex_attr_a, zero_Attr], [ex_attr_a, ex_attr_b, zero_Attr, zero_Attr]],
                  groupmem = [], mutexes = 1, written = []\<rparr>)"
proof -
  show p: "ex_parent = (\<lparr>options = ex_options, attrs = \<lparr>array = Some 0, len = 1, cap = 2\<rparr>,
                  groups = nil_slice, mutex = 0, writer = Some 0\<rparr>,
                \<lparr>attrmem = [[ex_attr_a, zero_Attr]], groupmem = [], mutexes = 1, written = []\<rparr>)"
    by (simp add: ex_parent_def WithAttrs_def clone_def append_slice_def Clip_def
        nil_slice_def Let_def elems_def ex_world1_def ex_handler_def ex_ext_def)
  show "ex_child1 = (\<lparr>options = ex_options, attrs = \<lparr>array = Some 1, len = 2, cap = 4\<rparr>,
                  groups = nil_slice, mutex = 0, writer = Some 0\<rparr>,
                \<lparr>attrmem = [[ex_attr_a, zero_Attr], [ex_attr_a, ex_attr_b, zero_Attr, zero_Attr]],
                  groupmem = [], mutexes = 1, written = []\<rparr>)"
    by (simp add: ex_child1_def p WithAttrs_def clone_def append_slice_def Clip_def
        nil_slice_def Let_def elems_def ex_ext_def numeral_2_eq_2)
qed

section \<open>The claims\<close>

subsection \<open>C1: events below the minimum level\<close>

text \<open>
  The claim fails on the code. The handler built with the default options has the minimum
  level Info; for a Debug event \<^verbatim>\<open>Enabled\<close> answers false, and yet \<^verbatim>\<open>Handle\<close>, called
  directly with that event, renders it and writes the line to the sink.
\<close>

theorem Handle_below_minLevel_counterexample:
  "Level (options ex_handler) = Some LevelInfo \<and> RLevel ex_record_debug < LevelInfo \<and>
   Enabled ex_handler (RLevel ex_record_debug) = Inr False \<and>
   Handle ex_ext ex_world1 ex_handler ex_record_debug =
     Inr (ex_world1\<lparr>written := [(0, ''2024/10/31 11:22:33 DEBUG message'' @ [CHR 0x0A])]\<rparr>, None)"
  by (simp add: handle_defs ex_record_debug_def Enabled_def)

text \<open>
  C1, as amended. \<^verbatim>\<open>Enabled\<close> holds exactly when the level is at least the minimum
  level, and it is the only place where the minimum level is consulted: the result of
  \<^verbatim>\<open>Handle\<close> does not depend on the minimum level of the handler, and whenever the goroutine
  id and the source resolve and the writer is not nil, \<^verbatim>\<open>Handle\<close> returns having made
  exactly one \<^verbatim>\<open>Write\<close> of one line on the handler's writer, whatever the level of the
  event.
\<close>

theorem Handle_ignores_minLevel:
  "(Level (options h) = Some l \<longrightarrow> Enabled h lv = Inr (l \<le> lv)) \<and>
   Handle ext w (h\<lparr>options := (options h)\<lparr>Level := x\<rparr>\<rparr>) r = Handle ext w h r \<and>
   (goroutineID ext (options h) = Inr g \<longrightarrow> source ext (options h) r = Inr src \<longrightarrow>
    writer h = Some wr \<longrightarrow>
      (\<exists>line. Handle ext w h r =
         Inr (w\<lparr>written := written w @ [(wr, line @ [CHR 0x0A])]\<rparr>,
              Write ext wr (line @ [CHR 0x0A]))))"
proof -
  have "Handle ext w (h\<lparr>options := (options h)\<lparr>Level := x\<rparr>\<rparr>) r = Handle ext w h r"
    by (simp add: Handle_def Level_unused Let_def split: sum.splits)
  moreover have "Level (options h) = Some l \<Longrightarrow> Enabled h lv = Inr (l \<le> lv)"
    by (simp add: Enabled_def)
  moreover have "\<exists>line. Handle ext w h r =
         Inr (w\<lparr>written := written w @ [(wr, line @ [CHR 0x0A])]\<rparr>,
              Write ext wr (line @ [CHR 0x0A]))"
    if "goroutineID ext (options h) = Inr g" "source ext (options h) r = Inr src"
      "writer h = Some wr"
    unfolding Handle_Inr [OF that] log_bytes_def by blast
  ultimately show ?thesis by blast
qed

theorem Handle_ignores_minLevel_witness:
  "Level (options ex_handler) = Some 0 \<and>
   Enabled ex_handler LevelDebug = Inr False \<and>
   goroutineID ex_ext (options ex_handler) = Inr 0 \<and>
   source ex_ext (options ex_handler) ex_record_debug = Inr [] \<and>
   writer ex_handler = Some 0 \<and>
   Handle ex_ext ex_world1 (ex_handler\<lparr>options := (options ex_handler)\<lparr>Level := Some LevelError\<rparr>\<rparr>) ex_record_debug =
     Inr (ex_world1\<lparr>written := [(0, ''2024/10/31 11:22:33 DEBUG message'' @ [CHR 0x0A])]\<rparr>, None)"
proof -
  have h: "Handle ex_ext ex_world1 ex_handler ex_record_debug =
     Inr (ex_world1\<lparr>written := [(0, ''2024/10/31 11:22:33 DEBUG message'' @ [CHR 0x0A])]\<rparr>, None)"
    by (simp add: handle_defs ex_record_debug_def)
  have e: "Level (options ex_handler) = Some 0" by (simp add: ex_handler_def ex_options_def)
  have g: "goroutineID ex_ext (options ex_handler) = Inr 0"
    by (simp add: handle_defs)
  have s: "source ex_ext (options ex_handler) ex_record_debug = Inr []"
    by (simp add: handle_defs ex_record_debug_def)
  have w: "writer ex_handler = Some 0" by (simp add: ex_handler_def)
  from Handle_ignores_minLevel [of ex_handler 0 LevelDebug ex_ext ex_world1 "Some LevelError"
      ex_record_debug 0 "[]" 0]
  show ?thesis using h e g s w by (simp add: LevelDebug_def)
qed

subsection \<open>C2: when attribute values are rendered\<close>

text \<open>
  The claim fails on the code. An attribute whose value refers to an object that prints
  as \<^verbatim>\<open>a\<close> when \<^verbatim>\<open>WithAttrs\<close> is called is rendered as \<^verbatim>\<open>k=b\<close> by a later \<^verbatim>\<open>Handle\<close>,
  once the object prints as \<^verbatim>\<open>b\<close>: the value was stored, not its string.
\<close>

theorem deferred_rendering_counterexample:
  "String ex_ext (AnyValue 0) = ''a'' \<and>
   Handle ex_ext_later (snd ex_with_any) (fst ex_with_any) ex_record =
     Inr ((snd ex_with_any)\<lparr>written :=
            [(0, ''2024/10/31 11:22:33 INFO. [k=b]: message'' @ [CHR 0x0A])]\<rparr>, None)"
  by (simp add: ex_with_any_value ex_ext_later_def handle_defs)

text \<open>
  C2, as amended. \<^verbatim>\<open>WithAttrs\<close> stores the attributes as given, key and value, behind
  those of the receiver; \<^verbatim>\<open>Handle\<close> renders the stored values to strings when it handles
  an event, in the environment of that moment. For attributes whose values are of a kind
  with a fixed string form (every kind but a reference to an object) the rendering, and so
  the scope prefix, is the same in every environment: there the line is what rendering
  at the time of the \<^verbatim>\<open>WithAttrs\<close> call would have given.
\<close>

theorem attributes_rendered_by_Handle:
  "(handler_ok w h \<longrightarrow>
      attrs_of (snd (WithAttrs ext w h as)) (fst (WithAttrs ext w h as)) = attrs_of w h @ as \<and>
      with_of ext' (snd (WithAttrs ext w h as)) (fst (WithAttrs ext w h as)) =
        with_clause ext' (groups_of w h) (attrs_of w h @ as)) \<and>
   ((\<forall>a \<in> set bs. fixed_value (Value a)) \<longrightarrow>
      withAttributes ext1 bs = withAttributes ext2 bs \<and>
      with_clause ext1 gs bs = with_clause ext2 gs bs)"
proof -
  have 1: "attrs_of (snd (WithAttrs ext w h as)) (fst (WithAttrs ext w h as)) = attrs_of w h @ as \<and>
      with_of ext' (snd (WithAttrs ext w h as)) (fst (WithAttrs ext w h as)) =
        with_clause ext' (groups_of w h) (attrs_of w h @ as)" if ok: "handler_ok w h"
  proof -
    obtain h' w' where W: "WithAttrs ext w h as = (h', w')" by force
    from WithAttrs_props(1,2) [OF ok W] show ?thesis by (simp add: W with_of_def)
  qed
  have s: "String ext1 v = String ext2 v" if "fixed_value v" for v
    using that by (cases v) (simp_all add: String_def)
  have 2: "withAttributes ext1 bs = withAttributes ext2 bs" if "\<forall>a \<in> set bs. fixed_value (Value a)"
    using that by (simp add: withAttributes_def s)
  have 3: "with_clause ext1 gs bs = with_clause ext2 gs bs" if "\<forall>a \<in> set bs. fixed_value (Value a)"
    unfolding with_clause_def 2 [OF that] by (rule refl)
  from 1 2 3 show ?thesis by blast
qed

theorem attributes_rendered_by_Handle_witness:
  "handler_ok ex_world1 ex_handler \<and>
   list_all (\<lambda>a. fixed_value (Value a)) ex_pid_attrs \<and>
   attrs_of (snd (WithAttrs ex_ext ex_world1 ex_handler ex_pid_attrs))
     (fst (WithAttrs ex_ext ex_world1 ex_handler ex_pid_attrs)) = ex_pid_attrs \<and>
   with_of ex_ext_later (snd (WithAttrs ex_ext ex_world1 ex_handler ex_pid_attrs))
     (fst (WithAttrs ex_ext ex_world1 ex_handler ex_pid_attrs)) = ''[pid=0]:'' \<and>
   with_clause ex_ext [] ex_pid_attrs = with_clause ex_ext_later [] ex_pid_attrs"
proof -
  have f: "\<forall>a \<in> set ex_pid_attrs. fixed_value (Value a)" by (simp add: ex_pid_attrs_def)
  have e: "attrs_of ex_world1 ex_handler = []" "groups_of ex_world1 ex_handler = []"
    by (simp_all add: attrs_of_def groups_of_def handle_defs)
  have v: "with_clause ex_ext_later [] ex_pid_attrs = ''[pid=0]:''"
    by (simp add: ex_pid_attrs_def with_clause_def withGroup_def withAttributes_def String_def
        Itoa_def digits10.simps Let_def)
  from attributes_rendered_by_Handle [of ex_world1 ex_handler ex_ext ex_pid_attrs ex_ext_later
      ex_pid_attrs ex_ext ex_ext_later "[]"] ex_handler_ok f e v
  show ?thesis by (simp add: list_all_iff)
qed

subsection \<open>C3: empty fields\<close>

text \<open>
  The claim fails on the code. For an event with the empty message and one attribute the
  line has two spaces between the level tag and the attribute: the empty message is a
  field of the line.
\<close>

theorem empty_message_counterexample:
  "Message ex_record_empty = [] \<and>
   Handle ex_ext ex_world1 ex_handler ex_record_empty =
     Inr (ex_world1\<lparr>written := [(0, ''2024/10/31 11:22:33 INFO.  k=v'' @ [CHR 0x0A])]\<rparr>, None)"
  by (simp add: handle_defs ex_record_empty_def)

text \<open>
  C3, as amended. The time, the level tag and the message are fields of every line, empty
  or not; each of the other fields (process id, goroutine id, scope prefix, event
  attributes, source) is a field of the line exactly when it is not empty. The fields are
  joined with single spaces and one line feed ends the line, which \<^verbatim>\<open>Handle\<close> writes
  whenever the goroutine id and the source resolve and the writer is not nil.
\<close>

theorem line_fields:
  assumes "goroutineID ext (options h) = Inr g" and "source ext (options h) r = Inr src"
    and "writer h = Some wr"
  shows "Handle ext w h r =
     (let present = filter (\<lambda>s. s \<noteq> []);
          line = Join (Format ext (Time r) (TimeLayout (options h)) #
                   present [if pid ext (options h) > 0
                            then Sprintf_0X 4 (nat (pid ext (options h))) else [],
                            if g > 0 then Sprintf_0X 8 (unat g) else []] @
                   level ext (options h) (RLevel r) #
                   present [with_of ext w h] @
                   Message r #
                   present [Join (attributes ext r) '' '', src]) '' '' @ [CHR 0x0A]
      in Inr (w\<lparr>written := written w @ [(wr, line)]\<rparr>, Write ext wr line))"
proof -
  have a: "attributes ext r = [] \<Longrightarrow> Join (attributes ext r) '' '' = []" by simp
  show ?thesis
    unfolding Handle_Inr [OF assms] log_bytes_def log_strings_fields Let_def
    using attributes_Join_nonempty [of ext r "'' ''"]
    by (simp add: Sprintf_0X_nonempty a)
qed

theorem line_fields_witness:
  "goroutineID ex_ext (options ex_handler) = Inr 0 \<and>
   source ex_ext (options ex_handler) ex_record_empty = Inr [] \<and>
   writer ex_handler = Some 0 \<and>
   Handle ex_ext ex_world1 ex_handler ex_record_empty =
     Inr (ex_world1\<lparr>written := [(0, ''2024/10/31 11:22:33 INFO.  k=v'' @ [CHR 0x0A])]\<rparr>, None)"
proof -
  have g: "goroutineID ex_ext (options ex_handler) = Inr 0"
    by (simp add: handle_defs)
  have s: "source ex_ext (options ex_handler) ex_record_empty = Inr []"
    by (simp add: handle_defs ex_record_empty_def)
  have w: "writer ex_handler = Some 0" by (simp add: ex_handler_def)
  show ?thesis
    using line_fields [OF g s w, of ex_world1] g s w
    by (simp add: handle_defs ex_record_empty_def with_of_def groups_of_def attrs_of_def)
qed

subsection \<open>C4: the scope prefix\<close>

text \<open>
  C4. The scope prefix of a handler is the group names joined with dots, followed with no
  separator by the bracketed attributes, as \<^verbatim>\<open>key=value\<close> joined with spaces, when there
  are attributes, followed by a colon when the joined group names or the attributes are
  not empty. When the handler has no group name and no attribute the prefix is empty and
  is no field of the line: in the line \<^verbatim>\<open>Handle\<close> writes, the message follows the level
  tag directly.
\<close>

theorem scope_prefix_shape:
  "with_of ext w h =
     Join (groups_of w h) ''.'' @
     (if attrs_of w h = [] then []
      else ''['' @ Join (map (\<lambda>a. Key a @ ''='' @ String ext (Value a)) (attrs_of w h)) '' ''
           @ '']'') @
     (if Join (groups_of w h) ''.'' = [] \<and> attrs_of w h = [] then [] else '':'') \<and>
   (groups_of w h = [] \<longrightarrow> attrs_of w h = [] \<longrightarrow>
    goroutineID ext (options h) = Inr g \<longrightarrow> source ext (options h) r = Inr src \<longrightarrow>
    writer h = Some wr \<longrightarrow>
      with_of ext w h = [] \<and>
      (\<exists>pre post. Handle ext w h r =
         Inr (w\<lparr>written := written w @
                [(wr, Join (pre @ [level ext (options h) (RLevel r), Message r] @ post) '' ''
                            @ [CHR 0x0A])]\<rparr>,
              Write ext wr
                (Join (pre @ [level ext (options h) (RLevel r), Message r] @ post) '' ''
                   @ [CHR 0x0A]))))"
proof -
  have shape: "with_of ext w h =
     Join (groups_of w h) ''.'' @
     (if attrs_of w h = [] then []
      else ''['' @ Join (map (\<lambda>a. Key a @ ''='' @ String ext (Value a)) (attrs_of w h)) '' ''
           @ '']'') @
     (if Join (groups_of w h) ''.'' = [] \<and> attrs_of w h = [] then [] else '':'')"
    by (simp only: with_of_def with_clause_shape)
  have absent: "\<exists>pre post. Handle ext w h r =
         Inr (w\<lparr>written := written w @
                [(wr, Join (pre @ [level ext (options h) (RLevel r), Message r] @ post) '' ''
                            @ [CHR 0x0A])]\<rparr>,
              Write ext wr
                (Join (pre @ [level ext (options h) (RLevel r), Message r] @ post) '' ''
                   @ [CHR 0x0A]))"
    if e: "with_of ext w h = []" and g: "goroutineID ext (options h) = Inr g"
      and s: "source ext (options h) r = Inr src" and wr: "writer h = Some wr"
  proof -
    let ?pre = "Format ext (Time r) (TimeLayout (options h)) #
         (if pid ext (options h) > 0 then [Sprintf_0X 4 (nat (pid ext (options h)))] else []) @
         (if g > 0 then [Sprintf_0X 8 (unat g)] else [])"
    let ?post = "(if attributes ext r = [] then [] else [Join (attributes ext r) '' '']) @
         (if src = [] then [] else [src])"
    have "Handle ext w h r =
         Inr (w\<lparr>written := written w @
                [(wr, Join (?pre @ [level ext (options h) (RLevel r), Message r] @ ?post) '' ''
                            @ [CHR 0x0A])]\<rparr>,
              Write ext wr
                (Join (?pre @ [level ext (options h) (RLevel r), Message r] @ ?post) '' ''
                   @ [CHR 0x0A]))"
      by (simp add: Handle_Inr [OF g s wr] log_bytes_def log_strings_fields e)
    then show ?thesis by blast
  qed
  have "with_of ext w h = []" if "groups_of w h = []" "attrs_of w h = []"
    using that by (simp add: shape)
  with shape absent show ?thesis by blast
qed

theorem scope_prefix_shape_witness:
  "groups_of ex_world1 ex_handler = [] \<and> attrs_of ex_world1 ex_handler = [] \<and>
   goroutineID ex_ext (options ex_handler) = Inr 0 \<and>
   source ex_ext (options ex_handler) ex_record = Inr [] \<and>
   writer ex_handler = Some 0 \<and>
   with_of ex_ext ex_world1 ex_handler = [] \<and>
   Handle ex_ext ex_world1 ex_handler ex_record =
     Inr (ex_world1\<lparr>written := [(0, ''2024/10/31 11:22:33 INFO. message'' @ [CHR 0x0A])]\<rparr>, None)"
proof -
  have a: "groups_of ex_world1 ex_handler = []" "attrs_of ex_world1 ex_handler = []"
    by (simp_all add: groups_of_def attrs_of_def handle_defs)
  have g: "goroutineID ex_ext (options ex_handler) = Inr 0"
    by (simp add: handle_defs)
  have s: "source ex_ext (options ex_handler) ex_record = Inr []"
    by (simp add: handle_defs)
  have h: "Handle ex_ext ex_world1 ex_handler ex_record =
     Inr (ex_world1\<lparr>written := [(0, ''2024/10/31 11:22:33 INFO. message'' @ [CHR 0x0A])]\<rparr>, None)"
    by (simp add: handle_defs)
  have w: "writer ex_handler = Some 0" by (simp add: ex_handler_def)
  from scope_prefix_shape [of ex_ext ex_world1 ex_handler 0 ex_record "[]" 0] a g s h w
  show ?thesis by simp
qed

subsection \<open>C5: interleaving of the two derivations\<close>

text \<open>
  C5. Starting from a well-formed handler, two sequences of \<^verbatim>\<open>WithGroup\<close> and
  \<^verbatim>\<open>WithAttrs\<close> calls that agree on the group names in call order and on the
  attributes in call order yield handlers with the same scope prefix, however the two kinds
  of call are interleaved. The concrete instance that follows derives G1, G2, pid=0 in the
  two orders of the specification and obtains \<^verbatim>\<open>G1.G2[pid=0]:\<close> both times.
\<close>

theorem scope_prefix_interleaving:
  assumes "handler_ok w h"
    and "group_names ds1 = group_names ds2"
    and "attr_pairs ds1 = attr_pairs ds2"
  shows "(case derive ext w h ds1 of (h1, w1) \<Rightarrow> with_of ext' w1 h1) =
         (case derive ext w h ds2 of (h2, w2) \<Rightarrow> with_of ext' w2 h2)"
proof -
  obtain h1 w1 where d1: "derive ext w h ds1 = (h1, w1)" by force
  obtain h2 w2 where d2: "derive ext w h ds2 = (h2, w2)" by force
  from derive_props [OF assms(1) d1] derive_props [OF assms(1) d2] assms(2,3)
  have "groups_of w1 h1 = groups_of w2 h2" "attrs_of w1 h1 = attrs_of w2 h2" by simp_all
  then show ?thesis by (simp add: d1 d2 with_of_def)
qed

theorem scope_prefix_interleaving_witness:
  "handler_ok ex_world1 ex_handler \<and> group_names ex_ds1 = group_names ex_ds2 \<and>
   attr_pairs ex_ds1 = attr_pairs ex_ds2 \<and>
   (case derive ex_ext ex_world1 ex_handler ex_ds1 of (h1, w1) \<Rightarrow> with_of ex_ext w1 h1) = ''G1.G2[pid=0]:'' \<and>
   (case derive ex_ext ex_world1 ex_handler ex_ds2 of (h2, w2) \<Rightarrow> with_of ex_ext w2 h2) = ''G1.G2[pid=0]:''"
proof -
  have g: "group_names ex_ds1 = group_names ex_ds2" by (simp add: ex_ds1_def ex_ds2_def)
  have a: "attr_pairs ex_ds1 = attr_pairs ex_ds2" by (simp add: ex_ds1_def ex_ds2_def)
  from scope_prefix_interleaving [OF ex_handler_ok g a, of ex_ext ex_ext] ex_ds1_value
  show ?thesis using ex_handler_ok g a by simp
qed

subsection \<open>C6: the receiver is not mutated\<close>

text \<open>
  C6. For a well-formed handler, \<^verbatim>\<open>WithAttrs\<close> and \<^verbatim>\<open>WithGroup\<close> return a handler whose
  sequence is the receiver's with the new entries behind it, whose other sequence is the
  receiver's, and which has the receiver's options, writer and mutex. The receiver reads
  the same sequences afterwards, and so does every other well-formed handler of the world,
  which stays well-formed: a child derived later from the same parent changes neither the
  parent nor the children derived before.
\<close>

theorem derivation_keeps_receiver:
  assumes "handler_ok w h"
  shows "(case WithAttrs ext w h as of (h', w') \<Rightarrow>
            attrs_of w' h' = attrs_of w h @ as \<and> groups_of w' h' = groups_of w h \<and>
            options h' = options h \<and> writer h' = writer h \<and> mutex h' = mutex h \<and>
            attrs_of w' h = attrs_of w h \<and> groups_of w' h = groups_of w h \<and>
            handler_ok w' h' \<and>
            (\<forall>k. handler_ok w k \<longrightarrow>
                 handler_ok w' k \<and> attrs_of w' k = attrs_of w k \<and> groups_of w' k = groups_of w k)) \<and>
         (case WithGroup ext w h name of (h', w') \<Rightarrow>
            groups_of w' h' = groups_of w h @ [name] \<and> attrs_of w' h' = attrs_of w h \<and>
            options h' = options h \<and> writer h' = writer h \<and> mutex h' = mutex h \<and>
            attrs_of w' h = attrs_of w h \<and> groups_of w' h = groups_of w h \<and>
            handler_ok w' h' \<and>
            (\<forall>k. handler_ok w k \<longrightarrow>
                 handler_ok w' k \<and> attrs_of w' k = attrs_of w k \<and> groups_of w' k = groups_of w k))"
proof -
  obtain h1 w1 where A: "WithAttrs ext w h as = (h1, w1)" by force
  obtain h2 w2 where G: "WithGroup ext w h name = (h2, w2)" by force
  note a = WithAttrs_props [OF assms A]
  note g = WithGroup_props [OF assms G]
  have "attrs_of w1 h1 = attrs_of w h @ as \<and> groups_of w1 h1 = groups_of w h \<and>
            options h1 = options h \<and> writer h1 = writer h \<and> mutex h1 = mutex h \<and>
            attrs_of w1 h = attrs_of w h \<and> groups_of w1 h = groups_of w h \<and>
            handler_ok w1 h1 \<and>
            (\<forall>k. handler_ok w k \<longrightarrow>
                 handler_ok w1 k \<and> attrs_of w1 k = attrs_of w k \<and> groups_of w1 k = groups_of w k)"
    using a(1,2,3,4) a(6) [OF assms] a(6) by blast
  moreover have "groups_of w2 h2 = groups_of w h @ [name] \<and> attrs_of w2 h2 = attrs_of w h \<and>
            options h2 = options h \<and> writer h2 = writer h \<and> mutex h2 = mutex h \<and>
            attrs_of w2 h = attrs_of w h \<and> groups_of w2 h = groups_of w h \<and>
            handler_ok w2 h2 \<and>
            (\<forall>k. handler_ok w k \<longrightarrow>
                 handler_ok w2 k \<and> attrs_of w2 k = attrs_of w k \<and> groups_of w2 k = groups_of w k)"
    using g(1,2,3,4) g(6) [OF assms] g(6) by blast
  ultimately show ?thesis unfolding A G prod.case by (rule conjI)
qed

theorem derivation_keeps_receiver_witness:
  "handler_ok (snd ex_child1) (fst ex_parent) \<and>
   handler_ok (snd ex_child1) (fst ex_child1) \<and>
   attrs_of (snd ex_child1) (fst ex_parent) = [ex_attr_a] \<and>
   attrs_of (snd ex_child2) (fst ex_parent) = [ex_attr_a] \<and>
   attrs_of (snd ex_child2) (fst ex_child1) = [ex_attr_a, ex_attr_b] \<and>
   attrs_of (snd ex_child2) (fst ex_child2) = [ex_attr_a, ex_attr_c]"
proof -
  have p: "handler_ok (snd ex_child1) (fst ex_parent)"
    by (simp add: ex_family handler_ok_def valid_slice_def nil_slice_def)
  have c: "handler_ok (snd ex_child1) (fst ex_child1)"
    by (simp add: ex_family handler_ok_def valid_slice_def nil_slice_def)
  have a: "attrs_of (snd ex_child1) (fst ex_parent) = [ex_attr_a]"
    "attrs_of (snd ex_child1) (fst ex_child1) = [ex_attr_a, ex_attr_b]"
    by (simp_all add: ex_family attrs_of_def elems_def numeral_2_eq_2)
  from derivation_keeps_receiver [OF p, where ext = ex_ext and as = "[ex_attr_c]" and name = "[]"]
    p c a
  show ?thesis by (auto simp: ex_child2_def split: prod.splits)
qed

subsection \<open>C7: configuration resolution\<close>

text \<open>
  C7. The options of the handler \<^verbatim>\<open>NewLogHandler\<close> builds are the resolution the
  specification words: the documented defaults for the unset fields, nil counting as all
  unset, then each environment variable, which replaces its field when it is one of the
  four level names, a flag equal to true or false up to case or equal to 1 or 0, or a
  non-empty time layout, and leaves the field untouched otherwise, also when it is unset.
  Equality up to case is that of \<^verbatim>\<open>strings.EqualFold\<close>. No value raises an error: the
  result is a total function of the options and the environment.
\<close>

theorem configuration_resolution:
  "options (fst (NewLogHandler ext w wr opts)) = spec_resolve ext opts \<and>
   options (fst (NewLogHandler ext w wr None)) =
     options (fst (NewLogHandler ext w wr (Some zero_options))) \<and>
   spec_level_var [] = None \<and> spec_bool_var [] = None"
  by (simp add: NewLogHandler_options spec_resolve_def spec_level_var_def spec_bool_var_def
      stripRune_def)

theorem configuration_resolution_witness:
  "options (fst (NewLogHandler ex_ext_env ex_world (Some 0) None)) =
     \<lparr>Level = Some LevelDebug, AddColor = False, TimeLayout = ''2006/01/02 15:04:05'',
      AddPID = True, AddGoroutineID = False, AddSourceLevel = Some LevelWarn,
      SourceFilePath = False\<rparr>"
proof -
  have "spec_resolve ex_ext_env None =
     \<lparr>Level = Some LevelDebug, AddColor = False, TimeLayout = ''2006/01/02 15:04:05'',
      AddPID = True, AddGoroutineID = False, AddSourceLevel = Some LevelWarn,
      SourceFilePath = False\<rparr>"
    by (simp add: spec_resolve_def spec_defaults_def zero_options_def ex_ext_env_def ex_ext_def
        spec_level_var_def ex_flags)
  with configuration_resolution [of ex_ext_env ex_world "Some 0" None] show ?thesis by simp
qed

subsection \<open>C8: process and goroutine identity\<close>

text \<open>
  The claim fails on the code. For the process id 70000 the field is \<^verbatim>\<open>11170\<close>, five
  digits: the width 4 of the format is a minimum.
\<close>

theorem pid_width_counterexample:
  "Getpid ex_ext = 70000 \<and>
   Handle ex_ext ex_world1 ex_handler_pid ex_record =
     Inr (ex_world1\<lparr>written := [(0, ''2024/10/31 11:22:33 11170 INFO. message'' @ [CHR 0x0A])]\<rparr>,
          None)"
  by (simp add: handle_defs ex_handler_pid_def Sprintf_0X_def digits16.simps hexdigit_def)

text \<open>
  C8, as amended. The process id is a field of the line exactly when \<^verbatim>\<open>AddPID\<close> is set
  and the process id is positive, and the goroutine id exactly when
  \<^verbatim>\<open>AddGoroutineID\<close> is set and the id read is positive; a value of 0 is left out. The
  fields are upper-case hexadecimal numerals of the value, padded with zeros to at least
  4 and 8 digits: a field of width k has exactly k digits when the value is below
  16 to the power k, and more digits otherwise.
\<close>

theorem identity_fields:
  "(goroutineID ext (options h) = Inr g \<longrightarrow> source ext (options h) r = Inr src \<longrightarrow>
    writer h = Some wr \<longrightarrow>
    Handle ext w h r =
     (let line = Join (Format ext (Time r) (TimeLayout (options h)) #
                   (if AddPID (options h) \<and> Getpid ext > 0
                    then [Sprintf_0X 4 (nat (Getpid ext))] else []) @
                   (if AddGoroutineID (options h) \<and> g > 0
                    then [Sprintf_0X 8 (unat g)] else []) @
                   level ext (options h) (RLevel r) #
                   (if with_of ext w h = [] then [] else [with_of ext w h]) @
                   Message r #
                   (if attributes ext r = [] then [] else [Join (attributes ext r) '' '']) @
                   (if src = [] then [] else [src])) '' '' @ [CHR 0x0A]
      in Inr (w\<lparr>written := written w @ [(wr, line)]\<rparr>, Write ext wr line))) \<and>
   length (Sprintf_0X k n) = max k (length (digits16 n)) \<and>
   set (Sprintf_0X k n) \<subseteq> set ''0123456789ABCDEF'' \<and>
   hexval (Sprintf_0X k n) = n \<and>
   (0 < k \<longrightarrow> (length (Sprintf_0X k n) = k \<longleftrightarrow> n < 16 ^ k))"
proof -
  have "g = 0" if "goroutineID ext (options h) = Inr g" "\<not> AddGoroutineID (options h)"
    using that by (simp add: goroutineID_def)
  then show ?thesis
    using Sprintf_0X_props [of k n]
    by (auto simp: Handle_Inr log_bytes_def log_strings_fields Let_def pid_def)
qed

theorem identity_fields_witness:
  "goroutineID ex_ext (options ex_handler_ids) = Inr 18 \<and>
   source ex_ext (options ex_handler_ids) ex_record = Inr [] \<and>
   writer ex_handler_ids = Some 0 \<and>
   Handle ex_ext ex_world1 ex_handler_ids ex_record =
     Inr (ex_world1\<lparr>written :=
            [(0, ''2024/10/31 11:22:33 11170 00000012 INFO. message'' @ [CHR 0x0A])]\<rparr>, None) \<and>
   (0::nat) < 4 \<and> length (Sprintf_0X 4 255) = 4 \<and> hexval (Sprintf_0X 4 255) = 255 \<and>
   length (Sprintf_0X 4 70000) = 5"
proof -
  have s: "source ex_ext (options ex_handler_ids) ex_record = Inr []"
    by (simp add: handle_defs ex_handler_ids_def)
  have e: "with_of ex_ext ex_world1 ex_handler_ids = []" "attributes ex_ext ex_record = []"
    by (simp_all add: handle_defs ex_handler_ids_def with_of_def groups_of_def attrs_of_def)
  have o: "AddPID (options ex_handler_ids)" "AddGoroutineID (options ex_handler_ids)"
    "Getpid ex_ext = 70000" "writer ex_handler_ids = Some 0" "written ex_world1 = []"
    "Format ex_ext (Time ex_record) (TimeLayout (options ex_handler_ids)) = ''2024/10/31 11:22:33''"
    "level ex_ext (options ex_handler_ids) (RLevel ex_record) = ''INFO.''"
    "Message ex_record = ''message''" "Write ex_ext 0 = (\<lambda>b. None)"
    by (simp_all add: handle_defs ex_handler_ids_def)
  from identity_fields [of ex_ext ex_handler_ids 18 ex_record "[]" 0 ex_world1 4 255]
    ex_goroutine s e o ex_hex
  show ?thesis by simp
qed

subsection \<open>C9: the caller's options object\<close>

text \<open>
  C9. When \<^verbatim>\<open>NewLogHandler\<close> is given a non-nil pointer, the object behind it holds the
  resolved options of the new handler after the call; it differs from what the caller set
  whenever the caller left the level, the time layout or the source level unset. Given
  nil, the caller has no object.
\<close>

theorem NewLogHandler_writes_back:
  "fst (snd (NewLogHandler ext w wr (Some p))) =
     Some (options (fst (NewLogHandler ext w wr (Some p)))) \<and>
   fst (snd (NewLogHandler ext w wr None)) = None \<and>
   (Level p = None \<or> TimeLayout p = [] \<or> AddSourceLevel p = None \<longrightarrow>
      fst (snd (NewLogHandler ext w wr (Some p))) \<noteq> Some p)"
proof -
  from NewLogHandler_shape [of ext w wr "Some p"]
  have 1: "fst (snd (NewLogHandler ext w wr (Some p))) =
     Some (options (fst (NewLogHandler ext w wr (Some p))))" by auto
  from NewLogHandler_shape [of ext w wr None]
  have 2: "fst (snd (NewLogHandler ext w wr None)) = None" by auto
  have 3: "fst (snd (NewLogHandler ext w wr (Some p))) \<noteq> Some p"
    if "Level p = None \<or> TimeLayout p = [] \<or> AddSourceLevel p = None"
    using that spec_resolved_set [of ext "Some p"]
    unfolding 1 NewLogHandler_options by auto
  from 1 2 3 show ?thesis by blast
qed

theorem NewLogHandler_writes_back_witness:
  "Level zero_options = None \<and>
   fst (snd (NewLogHandler ex_ext ex_world (Some 0) (Some zero_options))) = Some ex_options \<and>
   Some ex_options \<noteq> Some zero_options"
proof -
  have z: "Level zero_options = None" by (simp add: zero_options_def)
  have "spec_resolve ex_ext (Some zero_options) = ex_options"
    by (simp add: spec_resolve_def spec_defaults_def zero_options_def ex_ext_def
        spec_level_var_def ex_flags ex_options_def LevelInfo_def LevelWarn_def)
  with NewLogHandler_writes_back [of ex_ext ex_world "Some 0" zero_options] z
  show ?thesis by (simp add: NewLogHandler_options ex_options_def zero_options_def)
qed

subsection \<open>C10: the empty group name\<close>

text \<open>
  The claim fails on the code for a handler that has a group already: from the handler
  with the group A the two derivations give the scope prefix \<^verbatim>\<open>A..G:\<close>, not
  \<^verbatim>\<open>.G:\<close>.
\<close>

theorem empty_group_name_counterexample:
  "groups_of (snd ex_grouped) (fst ex_grouped) = [''A''] \<and>
   with_of ex_ext (snd ex_grouped2) (fst ex_grouped2) = ''A..G:'' \<and>
   with_of ex_ext (snd ex_grouped2) (fst ex_grouped2) \<noteq> ''.G:''"
  by (simp add: ex_grouped2_def ex_grouped1_def ex_grouped_def ex_world1_def ex_handler_def
      ex_ext_def eval_defs)

text \<open>
  C10, as amended. \<^verbatim>\<open>WithGroup\<close> with the empty name is not a no-op: it appends the empty
  name to the group names of a well-formed handler. Followed by \<^verbatim>\<open>WithGroup\<close> with the
  name G, the group names are those of the receiver, the empty name and G, and all of them
  are joined with dots; from a handler with no group and no attribute the scope prefix is
  \<^verbatim>\<open>.G:\<close>, with the leading dot.
\<close>

theorem empty_group_name_is_appended:
  assumes "handler_ok w h"
  shows "(case WithGroup ext w h [] of (h1, w1) \<Rightarrow>
            groups_of w1 h1 = groups_of w h @ [[]] \<and>
            (case WithGroup ext w1 h1 ''G'' of (h2, w2) \<Rightarrow>
               groups_of w2 h2 = groups_of w h @ [[], ''G''] \<and>
               attrs_of w2 h2 = attrs_of w h \<and>
               (groups_of w h = [] \<and> attrs_of w h = [] \<longrightarrow> with_of ext' w2 h2 = ''.G:'')))"
proof -
  obtain h1 w1 where 1: "WithGroup ext w h [] = (h1, w1)" by force
  obtain h2 w2 where 2: "WithGroup ext w1 h1 ''G'' = (h2, w2)" by force
  note a = WithGroup_props(1,2,3) [OF assms 1]
  note b = WithGroup_props(1,2) [OF a(3) 2]
  have "with_of ext' w2 h2 = ''.G:''" if "groups_of w h = []" "attrs_of w h = []"
    using that a b by (simp add: with_of_def with_clause_def withGroup_def withAttributes_def)
  with a b show ?thesis by (simp add: 1 2)
qed

theorem empty_group_name_is_appended_witness:
  "handler_ok ex_world1 ex_handler \<and>
   groups_of ex_world1 ex_handler = [] \<and> attrs_of ex_world1 ex_handler = [] \<and>
   (case WithGroup ex_ext ex_world1 ex_handler [] of (h1, w1) \<Rightarrow>
      case WithGroup ex_ext w1 h1 ''G'' of (h2, w2) \<Rightarrow>
        groups_of w2 h2 = [[], ''G''] \<and> with_of ex_ext w2 h2 = ''.G:'')"
proof -
  have e: "groups_of ex_world1 ex_handler = []" "attrs_of ex_world1 ex_handler = []"
    by (simp_all add: attrs_of_def groups_of_def handle_defs)
  from empty_group_name_is_appended [OF ex_handler_ok, where ext = ex_ext and ext' = ex_ext]
    e ex_handler_ok
  show ?thesis by (auto split: prod.splits)
qed

end
